theory Spec2Isabelle
  imports Main "HOL-Library.Sublist"
begin

section \<open>JavaScript values shared by the handlers\<close>

text \<open>
  A thrown \<open>Error\<close> object, with its \<open>message\<close>. Every throw site of the sources is
  \<open>throw new Error(...)\<close>, and the parameters that stand for code outside the sources
  are taken to throw \<open>Error\<close> objects as well. The \<open>stack\<close> property of an error is text
  of the runtime; the handlers that read it take the getter as a parameter.
\<close>

datatype js_error = JsError (message: string)

text \<open>JSON values, as the handlers build them with object and array literals.\<close>

datatype json =
    JNull
  | JBool bool
  | JNum int
  | JStr string
  | JArr "json list"
  | JObj "(string \<times> json) list"

text \<open>
  Console output. One entry per \<open>console.log\<close> / \<open>console.error\<close> call, holding the call's
  arguments in order. \<open>LJsonText j\<close> stands for the string \<open>JSON.stringify(j, null, 2)\<close>.
\<close>

datatype log_level = ConsoleLog | ConsoleError

datatype log_arg =
    LStr string
  | LUndefined
  | LNum nat
  | LStrs "string list"
  | LJsonText json
  | LErr js_error

type_synonym log_entry = "log_level \<times> log_arg list"

text \<open>
  JavaScript truthiness of a value of type \<open>string | undefined\<close>: \<open>undefined\<close> and the
  empty string are falsy.
\<close>

definition truthy :: "string option \<Rightarrow> bool" where
  "truthy v = (case v of None \<Rightarrow> False | Some s \<Rightarrow> s \<noteq> [])"

section \<open>Token verification (api/mcp-oauth.ts and the app route)\<close>

record auth_extra =
  apiKey :: "string option"

record AuthInfo =
  token :: string
  scopes :: "string list"
  clientId :: string
  extra :: "auth_extra option"

text \<open>The \<open>AuthInfo\<close> object literal that \<open>verifyToken\<close> returns for an accepted token.\<close>

definition authInfoOf :: "string \<Rightarrow> AuthInfo" where
  "authInfoOf bearerToken =
     \<lparr>token = bearerToken,
      scopes = [''read'', ''write''],
      clientId = ''instantly-user'',
      extra = Some \<lparr>apiKey = Some bearerToken\<rparr>\<rparr>"

text \<open>
  \<open>verifyToken\<close> of api/mcp-oauth.ts. The request argument is never read. The result is the
  console output and the returned value (\<open>None\<close> for \<open>undefined\<close>). The token is the text
  of an HTTP header, one character per byte, so its \<open>length\<close> is the length of the list.
\<close>

definition verifyToken :: "'req \<Rightarrow> string option \<Rightarrow> log_entry list \<times> AuthInfo option" where
  "verifyToken req bearerToken =
     (if \<not> truthy bearerToken then
        ([(ConsoleError, [LStr ''[OAuth] No bearer token provided''])], None)
      else if length (the bearerToken) < 10 then
        ([(ConsoleError, [LStr ''[OAuth] Bearer token too short''])], None)
      else
        ([(ConsoleError, [LStr ''[OAuth] Bearer token validated''])],
         Some (authInfoOf (the bearerToken))))"

text \<open>
  \<open>verifyToken\<close> of the app route (the handler that exports \<open>GET\<close>, \<open>POST\<close> and
  \<open>DELETE\<close>): the same checks with other log texts.
\<close>

definition verifyToken_route :: "'req \<Rightarrow> string option \<Rightarrow> log_entry list \<times> AuthInfo option" where
  "verifyToken_route req bearerToken =
     (if \<not> truthy bearerToken then
        ([(ConsoleError, [LStr ''[OAuth] No bearer token provided''])], None)
      else if length (the bearerToken) < 10 then
        ([(ConsoleError, [LStr ''[OAuth] Bearer token too short to be valid API key''])], None)
      else
        ([(ConsoleError, [LStr ''[OAuth] Bearer token validated successfully''])],
         Some (authInfoOf (the bearerToken))))"

section \<open>The tool handler callback\<close>

text \<open>
  The second argument of the callback, \<open>extra\<close>. The callback reads its \<open>auth\<close> property
  (\<open>extra?.auth?.extra?.apiKey\<close>). The object is built by the MCP SDK, which is outside the
  repository: the SDK's request context carries the \<open>AuthInfo\<close> of the request under
  \<open>authInfo\<close>. A property that is not set is \<open>None\<close>.
\<close>

record handler_extra =
  auth :: "AuthInfo option"
  authInfo :: "AuthInfo option"

text \<open>
  The context of a tool call as the SDK hands it over, for a request whose token
  verification gave \<open>a\<close>: the result is stored under \<open>authInfo\<close>, and \<open>auth\<close> is not set.
\<close>

definition sdkExtra :: "AuthInfo option \<Rightarrow> handler_extra" where
  "sdkExtra a = \<lparr>auth = None, authInfo = a\<rparr>"

definition contextApiKey :: "handler_extra option \<Rightarrow> string option" where
  "contextApiKey ex =
     (case ex of
        None \<Rightarrow> None
      | Some e \<Rightarrow>
          (case auth e of
             None \<Rightarrow> None
           | Some a \<Rightarrow> (case extra a of None \<Rightarrow> None | Some x \<Rightarrow> apiKey x)))"

text \<open>What \<open>executeToolDirectly\<close> resolves to: a string, or a value that is stringified.\<close>

datatype 'j tool_result = ResultString string | ResultValue 'j

record content_item =
  ctype :: string
  ctext :: string

text \<open>The MCP payload; \<open>isError = None\<close> is the object without the property.\<close>

record tool_payload =
  content :: "content_item list"
  isError :: "bool option"

definition successPayload :: "string \<Rightarrow> tool_payload" where
  "successPayload s = \<lparr>content = [\<lparr>ctype = ''text'', ctext = s\<rparr>], isError = None\<rparr>"

definition errorPayload :: "js_error \<Rightarrow> tool_payload" where
  "errorPayload e =
     \<lparr>content = [\<lparr>ctype = ''text'', ctext = ''Error: '' @ message e\<rparr>], isError = Some True\<rparr>"

definition apiKeyRequired :: js_error where
  "apiKeyRequired = JsError ''API key required. Please provide your Instantly.ai API key.''"

text \<open>
  The callback registered for each tool. \<open>executeToolDirectly\<close> (src/handlers/tool-executor)
  and \<open>JSON.stringify\<close> are parameters; each returns \<open>Inl\<close> when it throws. The first
  component of the result lists the calls made to \<open>executeToolDirectly\<close>, with their
  arguments; the second is the returned payload.
\<close>

definition toolCallback ::
  "(string \<Rightarrow> 'a \<Rightarrow> string \<Rightarrow> js_error + 'j tool_result) \<Rightarrow> ('j \<Rightarrow> js_error + string) \<Rightarrow>
   string \<Rightarrow> 'a \<Rightarrow> handler_extra option \<Rightarrow> (string \<times> 'a \<times> string) list \<times> tool_payload" where
  "toolCallback executeToolDirectly stringify name args ex =
     (let key = contextApiKey ex in
      if \<not> truthy key then ([], errorPayload apiKeyRequired)
      else
        (case executeToolDirectly name args (the key) of
           Inl e \<Rightarrow> ([(name, args, the key)], errorPayload e)
         | Inr (ResultString s) \<Rightarrow> ([(name, args, the key)], successPayload s)
         | Inr (ResultValue j) \<Rightarrow>
             (case stringify j of
                Inl e \<Rightarrow> ([(name, args, the key)], errorPayload e)
              | Inr s \<Rightarrow> ([(name, args, the key)], successPayload s))))"


section \<open>The serverless function of api/mcp-oauth.ts\<close>

text \<open>
  A header of the incoming Node request: a string, or an array of strings. The headers
  object is the list of its entries, in the order \<open>Object.entries\<close> walks them.
\<close>

datatype header_value = HSingle string | HMulti "string list"

record 'b VercelRequest =
  vmethod :: "string option"
  vurl :: "string option"
  vheaders :: "(string \<times> header_value) list"
  vbody :: 'b

definition headerJson :: "header_value \<Rightarrow> json" where
  "headerJson v = (case v of HSingle s \<Rightarrow> JStr s | HMulti ss \<Rightarrow> JArr (map JStr ss))"

definition headersJson :: "(string \<times> header_value) list \<Rightarrow> json" where
  "headersJson hs = JObj (map (\<lambda>(k, v). (k, headerJson v)) hs)"

text \<open>Truthiness of a header value: an array is truthy, a string unless it is empty.\<close>

definition truthyHeader :: "header_value option \<Rightarrow> bool" where
  "truthyHeader v =
     (case v of None \<Rightarrow> False | Some (HSingle s) \<Rightarrow> s \<noteq> [] | Some (HMulti ss) \<Rightarrow> True)"

text \<open>\<open>a || b\<close> on header values.\<close>

definition orElse :: "header_value option \<Rightarrow> header_value option \<Rightarrow> header_value option" where
  "orElse a b = (if truthyHeader a then a else b)"

text \<open>A header value as an argument of \<open>console.log\<close>.\<close>

definition logHeader :: "header_value option \<Rightarrow> log_arg" where
  "logHeader v =
     (case v of None \<Rightarrow> LUndefined | Some (HSingle s) \<Rightarrow> LStr s | Some (HMulti ss) \<Rightarrow> LStrs ss)"

definition logOpt :: "string option \<Rightarrow> log_arg" where
  "logOpt v = (case v of None \<Rightarrow> LUndefined | Some s \<Rightarrow> LStr s)"

text \<open>Values inside a template literal: \<open>undefined\<close> prints as the word, an array joined by commas.\<close>

fun joinComma :: "string list \<Rightarrow> string" where
  "joinComma [] = []"
| "joinComma [s] = s"
| "joinComma (s # t # ss) = s @ '','' @ joinComma (t # ss)"

definition templateOpt :: "string option \<Rightarrow> string" where
  "templateOpt v = (case v of None \<Rightarrow> ''undefined'' | Some s \<Rightarrow> s)"

definition templateHeader :: "header_value option \<Rightarrow> string" where
  "templateHeader v =
     (case v of None \<Rightarrow> ''undefined'' | Some (HSingle s) \<Rightarrow> s | Some (HMulti ss) \<Rightarrow> joinComma ss)"

text \<open>\<open>Array.isArray(value) ? value[0] : value\<close>, as \<open>Headers.set\<close> stores it.\<close>

definition headerFirst :: "header_value \<Rightarrow> string" where
  "headerFirst v =
     (case v of HSingle s \<Rightarrow> s | HMulti [] \<Rightarrow> ''undefined'' | HMulti (s # ss) \<Rightarrow> s)"

text \<open>
  The arguments of \<open>new Request(url, {method, headers, body})\<close>; \<open>w_headers\<close> are the
  \<open>Headers.set\<close> calls in order, \<open>w_body = None\<close> is \<open>null\<close>.
\<close>

record WebRequest =
  w_url :: string
  w_method :: string
  w_headers :: "(string \<times> string) list"
  w_body :: "string option"

record WebResponse =
  status :: nat
  r_headers :: "(string \<times> string) list"
  r_body :: string

datatype sent = SendText string | SendJson json

record VercelResponse =
  v_status :: nat
  v_headers :: "(string \<times> string) list"
  v_sent :: sent

definition buildRequest :: "('b \<Rightarrow> string) \<Rightarrow> 'b VercelRequest \<Rightarrow> WebRequest" where
  "buildRequest stringify req =
     \<lparr>w_url = ''https://'' @ templateHeader (map_of (vheaders req) ''host'') @ templateOpt (vurl req),
      w_method = (if truthy (vmethod req) then the (vmethod req) else ''GET''),
      w_headers = map (\<lambda>(k, v). (k, headerFirst v))
                    (filter (\<lambda>(k, v). truthyHeader (Some v)) (vheaders req)),
      w_body = (if vmethod req \<noteq> Some ''GET'' \<and> vmethod req \<noteq> Some ''HEAD''
                then Some (stringify (vbody req)) else None)\<rparr>"

text \<open>The three \<open>console.log\<close> calls made before the request is handed on.\<close>

definition incomingLog :: "'b VercelRequest \<Rightarrow> log_entry list" where
  "incomingLog req =
     [(ConsoleLog, [LStr ''[Vercel] Incoming request:'', logOpt (vmethod req), logOpt (vurl req)]),
      (ConsoleLog, [LStr ''[Vercel] Headers:'', LJsonText (headersJson (vheaders req))]),
      (ConsoleLog, [LStr ''[Vercel] Authorization header:'',
         logHeader (orElse (map_of (vheaders req) ''authorization'')
                           (map_of (vheaders req) ''Authorization''))])]"

text \<open>
  The exported \<open>handler\<close> (the later revision of the file, the one that logs).
  \<open>authHandler\<close> is \<open>withMcpAuth(baseHandler, verifyToken, ...)\<close> of the mcp-handler
  package, a parameter; \<open>Inl\<close> is a throw in the \<open>try\<close> block after the first three log
  calls and before the status is logged (the \<open>Request\<close> constructor included).
  \<open>stackOf\<close> reads \<open>error.stack\<close>.
\<close>

definition handler ::
  "(WebRequest \<Rightarrow> js_error + WebResponse) \<Rightarrow> ('b \<Rightarrow> string) \<Rightarrow> (js_error \<Rightarrow> string) \<Rightarrow>
   'b VercelRequest \<Rightarrow> log_entry list \<times> VercelResponse" where
  "handler authHandler stringify stackOf req =
     (case authHandler (buildRequest stringify req) of
        Inr response \<Rightarrow>
          (incomingLog req @ [(ConsoleLog, [LStr ''[Vercel] Response status:'', LNum (status response)])],
           \<lparr>v_status = status response, v_headers = r_headers response,
            v_sent = SendText (r_body response)\<rparr>)
      | Inl error \<Rightarrow>
          (incomingLog req @
             [(ConsoleError, [LStr ''[Handler Error]'', LErr error]),
              (ConsoleError, [LStr ''[Handler Error Stack]'', LStr (stackOf error)])],
           \<lparr>v_status = 500, v_headers = [],
            v_sent = SendJson (JObj [(''error'', JStr ''Internal server error''),
                                     (''message'', JStr (message error)),
                                     (''stack'', JStr (stackOf error))])\<rparr>))"

text \<open>
  The earlier revision of the same \<open>handler\<close>: it logs nothing unless the \<open>try\<close> block
  throws.
\<close>

definition handler_quiet ::
  "(WebRequest \<Rightarrow> js_error + WebResponse) \<Rightarrow> ('b \<Rightarrow> string) \<Rightarrow>
   'b VercelRequest \<Rightarrow> log_entry list \<times> VercelResponse" where
  "handler_quiet authHandler stringify req =
     (case authHandler
             ((buildRequest stringify req)
               \<lparr>w_headers := map (\<lambda>(k, v). (k, templateHeader (Some v))) (vheaders req)\<rparr>) of
        Inr response \<Rightarrow>
          ([], \<lparr>v_status = status response, v_headers = r_headers response,
                v_sent = SendText (r_body response)\<rparr>)
      | Inl error \<Rightarrow>
          ([(ConsoleError, [LStr ''[Handler Error]'', LErr error])],
           \<lparr>v_status = 500, v_headers = [],
            v_sent = SendJson (JObj [(''error'', JStr ''Internal server error''),
                                     (''message'', JStr (message error))])\<rparr>))"

section \<open>The Vercel adapter: createServer and the function that wraps it\<close>

text \<open>
  The module-level variables \<open>cachedApp\<close> (vercel-adapter) and \<open>serverInstance\<close> (the
  serverless function), \<open>null\<close> as \<open>None\<close>; the state of everything outside the two modules
  (\<open>world\<close>), which building and running an Express app may change; and the console.
\<close>

record ('app, 'w) server_state =
  cachedApp :: "'app option"
  serverInstance :: "'app option"
  world :: 'w
  console :: "log_entry list"

definition say :: "log_entry \<Rightarrow> ('app, 'w) server_state \<Rightarrow> ('app, 'w) server_state" where
  "say e s = s\<lparr>console := console s @ [e]\<rparr>"

text \<open>
  \<open>createServer\<close>. The parameter \<open>build\<close> is the construction between the two log lines:
  \<open>new Server\<close>, \<open>registerMcpHandlers\<close>, \<open>new StreamingHttpTransport\<close> and the read of
  \<open>transport.app\<close>. It returns \<open>Inl\<close> when one of them throws, \<open>Inr None\<close> when the app
  read is falsy, and the new world.
\<close>

definition createServer ::
  "('w \<Rightarrow> (js_error + 'app option) \<times> 'w) \<Rightarrow> ('app, 'w) server_state \<Rightarrow>
   (js_error + 'app) \<times> ('app, 'w) server_state" where
  "createServer build s =
     (case cachedApp s of
        Some app \<Rightarrow> (Inr app, s)
      | None \<Rightarrow>
          (let s1 = say (ConsoleError, [LStr ''[Vercel] Initializing Instantly MCP Server...'']) s
           in case build (world s1) of
                (Inl e, w) \<Rightarrow> (Inl e, s1\<lparr>world := w\<rparr>)
              | (Inr None, w) \<Rightarrow> (Inl (JsError ''Failed to create Express app''), s1\<lparr>world := w\<rparr>)
              | (Inr (Some app), w) \<Rightarrow>
                  (Inr app,
                   (say (ConsoleError, [LStr ''[Vercel] Express app initialized successfully''])
                      (s1\<lparr>world := w\<rparr>))\<lparr>cachedApp := Some app\<rparr>)))"

text \<open>What a call of the serverless function returns: the app's answer, or the 500 reply.\<close>

datatype 'rs reply = AppReply 'rs | Status500 json

text \<open>
  The serverless function that imports \<open>createServer\<close> statically. \<open>runApp\<close> is the call
  \<open>serverInstance(req, res)\<close>.
\<close>

definition serverlessHandler ::
  "('w \<Rightarrow> (js_error + 'app option) \<times> 'w) \<Rightarrow> ('app \<Rightarrow> 'rq \<Rightarrow> 'w \<Rightarrow> (js_error + 'rs) \<times> 'w) \<Rightarrow>
   'rq \<Rightarrow> ('app, 'w) server_state \<Rightarrow> 'rs reply \<times> ('app, 'w) server_state" where
  "serverlessHandler build runApp req s =
     (let failed = (\<lambda>error s'.
            (Status500 (JObj [(''error'', JStr ''Internal server error''),
                              (''message'', JStr (message error))]),
             say (ConsoleError, [LStr ''Error handling request:'', LErr error]) s'));
          serve = (\<lambda>app s'.
            (case runApp app req (world s') of
               (Inl e, w) \<Rightarrow> failed e (s'\<lparr>world := w\<rparr>)
             | (Inr rs, w) \<Rightarrow> (AppReply rs, s'\<lparr>world := w\<rparr>)))
      in case serverInstance s of
           Some app \<Rightarrow> serve app s
         | None \<Rightarrow>
             (case createServer build s of
                (Inl e, s') \<Rightarrow> failed e s'
              | (Inr app, s') \<Rightarrow> serve app (s'\<lparr>serverInstance := Some app\<rparr>)))"

text \<open>
  The revision that loads the adapter with a dynamic \<open>import\<close> and logs each step.
  \<open>importAdapter\<close> is \<open>None\<close> when the module loads and the error when it does not;
  \<open>development\<close> says whether \<open>NODE_ENV\<close> is \<open>development\<close>. The request is logged by its
  method and url.
\<close>

definition serverlessHandler_logged ::
  "js_error option \<Rightarrow> ('w \<Rightarrow> (js_error + 'app option) \<times> 'w) \<Rightarrow>
   ('app \<Rightarrow> 'rq \<Rightarrow> 'w \<Rightarrow> (js_error + 'rs) \<times> 'w) \<Rightarrow> (js_error \<Rightarrow> string) \<Rightarrow> bool \<Rightarrow>
   ('rq \<Rightarrow> string option) \<Rightarrow> ('rq \<Rightarrow> string option) \<Rightarrow>
   'rq \<Rightarrow> ('app, 'w) server_state \<Rightarrow> 'rs reply \<times> ('app, 'w) server_state" where
  "serverlessHandler_logged importAdapter build runApp stackOf development methodOf urlOf req s =
     (let failed = (\<lambda>error s'.
            (Status500 (JObj ([(''error'', JStr ''Internal server error''),
                               (''message'', JStr (message error))] @
                              (if development then [(''stack'', JStr (stackOf error))] else []))),
             say (ConsoleError, [LStr ''[Vercel] Error stack:'', LStr (stackOf error)])
               (say (ConsoleError, [LStr ''[Vercel] Error handling request:'', LErr error]) s')));
          serve = (\<lambda>app s'.
            (case runApp app req
                    (world (say (ConsoleLog, [LStr ''[Vercel] Handling request with Express app'']) s')) of
               (Inl e, w) \<Rightarrow>
                 failed e ((say (ConsoleLog, [LStr ''[Vercel] Handling request with Express app'']) s')
                             \<lparr>world := w\<rparr>)
             | (Inr rs, w) \<Rightarrow>
                 (AppReply rs,
                  (say (ConsoleLog, [LStr ''[Vercel] Handling request with Express app'']) s')
                    \<lparr>world := w\<rparr>)));
          s0 = say (ConsoleLog, [LStr ''[Vercel] Handler invoked:'', logOpt (methodOf req),
                                 logOpt (urlOf req)]) s
      in case serverInstance s0 of
           Some app \<Rightarrow> serve app s0
         | None \<Rightarrow>
             (let s1 = say (ConsoleLog, [LStr ''[Vercel] Initializing server instance...'']) s0
              in case importAdapter of
                   Some e \<Rightarrow> failed e s1
                 | None \<Rightarrow>
                     (case createServer build
                             (say (ConsoleLog, [LStr ''[Vercel] Module loaded successfully'']) s1) of
                        (Inl e, s') \<Rightarrow> failed e s'
                      | (Inr app, s') \<Rightarrow>
                          serve app
                            (say (ConsoleLog, [LStr ''[Vercel] Server instance created''])
                               (s'\<lparr>serverInstance := Some app\<rparr>)))))"

text \<open>A run of calls to \<open>createServer\<close>, one after the other: the results in order, and the state.\<close>

fun createServer_times ::
  "nat \<Rightarrow> ('w \<Rightarrow> (js_error + 'app option) \<times> 'w) \<Rightarrow> ('app, 'w) server_state \<Rightarrow>
   (js_error + 'app) list \<times> ('app, 'w) server_state" where
  "createServer_times 0 build s = ([], s)"
| "createServer_times (Suc n) build s =
     (case createServer build s of
        (r, s') \<Rightarrow> (case createServer_times n build s' of (rs, s'') \<Rightarrow> (r # rs, s'')))"

section \<open>The OAuth endpoints of src/oauth-config.ts\<close>

record oauth_config =
  host :: string
  port :: nat

text \<open>The two environment variables \<open>getBaseUrl\<close> reads.\<close>

record process_env =
  NODE_ENV :: "string option"
  VERCEL :: "string option"

definition digit :: "nat \<Rightarrow> char" where
  "digit d = char_of (48 + d)"

fun showNat :: "nat \<Rightarrow> string" where
  "showNat n = (if n < 10 then [digit n] else showNat (n div 10) @ [digit (n mod 10)])"

definition getBaseUrl :: "oauth_config \<Rightarrow> process_env \<Rightarrow> string" where
  "getBaseUrl config env =
     (if NODE_ENV env = Some ''production'' \<or> truthy (VERCEL env)
      then ''https://instantly-mcp.vercel.app''
      else ''http://'' @ host config @ '':'' @ showNat (port config))"

text \<open>
  The log texts carry an emoji each; the strings below hold its UTF-8 bytes.
\<close>

definition emojiMagnifier :: string where
  "emojiMagnifier = [CHR 0xF0, CHR 0x9F, CHR 0x94, CHR 0x8D]"

definition emojiKey :: string where
  "emojiKey = [CHR 0xF0, CHR 0x9F, CHR 0x94, CHR 0x91]"

definition emojiLock :: string where
  "emojiLock = [CHR 0xF0, CHR 0x9F, CHR 0x94, CHR 0x90]"

definition httpLog :: "string \<Rightarrow> string \<Rightarrow> log_entry" where
  "httpLog emoji msg = (ConsoleError, [LStr (''[HTTP] '' @ emoji @ '' '' @ msg)])"

definition authorizationServerMetadata :: "oauth_config \<Rightarrow> process_env \<Rightarrow> log_entry list \<times> json" where
  "authorizationServerMetadata config env =
     ([httpLog emojiMagnifier ''OAuth discovery: /.well-known/oauth-authorization-server''],
      JObj [(''issuer'', JStr (getBaseUrl config env)),
            (''service_documentation'', JStr ''https://github.com/Instantly-ai/instantly-mcp''),
            (''token_endpoint_auth_methods_supported'', JArr [JStr ''none'']),
            (''grant_types_supported'', JArr [JStr ''client_credentials'']),
            (''response_types_supported'', JArr [JStr ''token'']),
            (''scopes_supported'', JArr [JStr ''read'', JStr ''write'']),
            (''authorization_endpoint'', JStr (getBaseUrl config env @ ''/oauth/authorize'')),
            (''token_endpoint'', JStr (getBaseUrl config env @ ''/oauth/token''))])"

definition protectedResourceMetadata :: "oauth_config \<Rightarrow> process_env \<Rightarrow> log_entry list \<times> json" where
  "protectedResourceMetadata config env =
     ([httpLog emojiMagnifier ''OAuth discovery: /.well-known/oauth-protected-resource''],
      JObj [(''resource'', JStr (getBaseUrl config env)),
            (''authorization_servers'', JArr [JStr (getBaseUrl config env)]),
            (''bearer_methods_supported'', JArr [JStr ''header'']),
            (''resource_documentation'', JStr ''https://github.com/Instantly-ai/instantly-mcp''),
            (''scopes_supported'', JArr [JStr ''read'', JStr ''write'']),
            (''token_introspection_endpoint'', JStr (getBaseUrl config env @ ''/oauth/introspect''))])"

definition oauthToken :: "log_entry list \<times> json" where
  "oauthToken =
     ([httpLog emojiKey ''OAuth token request''],
      JObj [(''access_token'', JStr ''use_instantly_api_key_as_bearer_token''),
            (''token_type'', JStr ''Bearer''),
            (''expires_in'', JNum 3600),
            (''scope'', JStr ''read write'')])"

definition oauthAuthorize :: "log_entry list \<times> json" where
  "oauthAuthorize =
     ([httpLog emojiLock ''OAuth authorization request''],
      JObj [(''message'', JStr ''Use your Instantly.ai API key as the Bearer token''),
            (''instructions'',
             JStr ''Set Authorization header to: Bearer YOUR_INSTANTLY_API_KEY'')])"

definition oauthIntrospect :: "log_entry list \<times> json" where
  "oauthIntrospect =
     ([httpLog emojiMagnifier ''OAuth token introspection''],
      JObj [(''active'', JBool True),
            (''scope'', JStr ''read write''),
            (''token_type'', JStr ''Bearer'')])"

text \<open>
  A request as the routes see it. No route handler reads anything of it: the method and
  the path select the route, the headers and the body are ignored.
\<close>

record 'b http_request =
  h_method :: string
  h_path :: string
  h_headers :: "(string \<times> string) list"
  h_body :: 'b

text \<open>
  \<open>setupOAuthEndpoints\<close>: the five routes it registers, tried in registration order.
  \<open>None\<close> when no route of this module matches.
\<close>

definition setupOAuthEndpoints ::
  "oauth_config \<Rightarrow> process_env \<Rightarrow> 'b http_request \<Rightarrow> (log_entry list \<times> json) option" where
  "setupOAuthEndpoints config env req =
     (if h_method req = ''GET'' \<and> h_path req = ''/.well-known/oauth-authorization-server''
        then Some (authorizationServerMetadata config env)
      else if h_method req = ''GET'' \<and> h_path req = ''/.well-known/oauth-protected-resource''
        then Some (protectedResourceMetadata config env)
      else if h_method req = ''POST'' \<and> h_path req = ''/oauth/token''
        then Some oauthToken
      else if h_method req = ''GET'' \<and> h_path req = ''/oauth/authorize''
        then Some oauthAuthorize
      else if h_method req = ''POST'' \<and> h_path req = ''/oauth/introspect''
        then Some oauthIntrospect
      else None)"

section \<open>The pagination engine\<close>

text \<open>
  The failure classes of the request client, as the specification lists them;
  \<open>ValidationError\<close> carries the upstream response body and \<open>RateLimitError\<close> the
  retry-after hint.
\<close>

datatype request_error =
    AuthenticationError
  | AuthorizationError
  | NotFoundError
  | ValidationError string
  | RateLimitError nat
  | UpstreamServerError
  | NetworkError

datatype stopped_reason = Exhausted | SafetyLimitReached | CallerLimitReached | UpstreamError

record 'a PaginationResult =
  items :: "'a list"
  isComplete :: bool
  totalFetched :: nat
  stoppedReason :: stopped_reason

text \<open>One page of a list endpoint: its items and the cursor of the next page, if any.\<close>

record ('c, 'a) page =
  page_items :: "'a list"
  next_cursor :: "'c option"

text \<open>
  What a pagination run hands back: the result, the error surfaced beside it, and what the
  run did: the loop iterations it made, the pauses it took after rate-limit failures, the
  progress it reported (the running item count after each page), and the state it left
  the upstream in.
\<close>

record ('a, 'u) fetch_outcome =
  result :: "'a PaginationResult"
  surfaced :: "request_error option"
  iterations :: nat
  pauses :: "nat list"
  progress :: "nat list"
  upstream :: 'u

definition stop ::
  "stopped_reason \<Rightarrow> request_error option \<Rightarrow> 'a list \<Rightarrow> nat \<Rightarrow> nat list \<Rightarrow> nat list \<Rightarrow> 'u \<Rightarrow>
   ('a, 'u) fetch_outcome" where
  "stop reason err acc n ps pr u =
     \<lparr>result = \<lparr>items = acc,
                 isComplete = (reason = Exhausted \<or> reason = SafetyLimitReached),
                 totalFetched = length acc,
                 stoppedReason = reason\<rparr>,
      surfaced = err, iterations = n, pauses = ps, progress = pr, upstream = u\<rparr>"

text \<open>
  Modelled from the spec: the pagination engine (\<open>fetchAll\<close> and the request it drives)
  is not among the source files; the definitions \<open>requestPage\<close>, \<open>fetchLoop\<close> and
  \<open>fetchAll\<close> follow section 4.2 of the specification. The request client is the
  parameter \<open>send\<close>: from the upstream's state, a cursor (\<open>None\<close> is the start) and a page
  size it gives a page or a failure, and the upstream's next state.

  One request of a page. On a rate-limit failure the engine pauses for the retry-after
  hint, bounded by \<open>maxBackoff\<close>, and asks for the same page once more; whatever the
  second attempt gives is the answer.
\<close>

definition requestPage ::
  "('u \<Rightarrow> 'c option \<Rightarrow> nat \<Rightarrow> (request_error + ('c, 'a) page) \<times> 'u) \<Rightarrow> nat \<Rightarrow> nat \<Rightarrow>
   'c option \<Rightarrow> 'u \<Rightarrow> (request_error + ('c, 'a) page) \<times> nat list \<times> 'u" where
  "requestPage send maxBackoff pageSize cursor u =
     (case send u cursor pageSize of
        (Inl (RateLimitError retryAfter), u1) \<Rightarrow>
          (case send u1 cursor pageSize of (r, u2) \<Rightarrow> (r, [min retryAfter maxBackoff], u2))
      | (r, u1) \<Rightarrow> (r, [], u1))"

text \<open>
  Modelled from the spec: the loop of the pagination engine, which is not among the source
  files. Each iteration requests the page of the current cursor; a failure stops with
  \<open>UpstreamError\<close> and the items gathered so far; otherwise the page's items are appended,
  its next cursor adopted, and the stopping conditions are checked in the order of the
  specification: no further cursor, then the item limit, then the page limit.
\<close>

function fetchLoop ::
  "('u \<Rightarrow> 'c option \<Rightarrow> nat \<Rightarrow> (request_error + ('c, 'a) page) \<times> 'u) \<Rightarrow> nat \<Rightarrow> nat \<Rightarrow> nat \<Rightarrow> nat \<Rightarrow>
   'c option \<Rightarrow> 'a list \<Rightarrow> nat \<Rightarrow> nat list \<Rightarrow> nat list \<Rightarrow> 'u \<Rightarrow> ('a, 'u) fetch_outcome" where
  "fetchLoop send maxBackoff pageSize maxPages maxItems cursor acc n ps pr u =
     (case requestPage send maxBackoff pageSize cursor u of
        (Inl e, w, u') \<Rightarrow> stop UpstreamError (Some e) acc (Suc n) (ps @ w) pr u'
      | (Inr pg, w, u') \<Rightarrow>
          (if next_cursor pg = None then
             stop Exhausted None (acc @ page_items pg) (Suc n) (ps @ w)
               (pr @ [length (acc @ page_items pg)]) u'
           else if maxItems \<le> length (acc @ page_items pg) then
             stop CallerLimitReached None (acc @ page_items pg) (Suc n) (ps @ w)
               (pr @ [length (acc @ page_items pg)]) u'
           else if maxPages \<le> Suc n then
             stop SafetyLimitReached None (acc @ page_items pg) (Suc n) (ps @ w)
               (pr @ [length (acc @ page_items pg)]) u'
           else
             fetchLoop send maxBackoff pageSize maxPages maxItems (next_cursor pg)
               (acc @ page_items pg) (Suc n) (ps @ w) (pr @ [length (acc @ page_items pg)]) u'))"
  by pat_completeness auto
termination
  by (relation "measure (\<lambda>(send, maxBackoff, pageSize, maxPages, maxItems, cursor, acc, n, ps, pr, u).
                  maxPages - n)") auto

text \<open>
  Modelled from the spec: \<open>fetchAll(endpoint, pageSize, maxPages, maxItems)\<close>, which is
  not among the source files. The run starts with no cursor and nothing gathered.
\<close>

definition fetchAll ::
  "('u \<Rightarrow> 'c option \<Rightarrow> nat \<Rightarrow> (request_error + ('c, 'a) page) \<times> 'u) \<Rightarrow> nat \<Rightarrow> nat \<Rightarrow> nat \<Rightarrow> nat \<Rightarrow>
   'u \<Rightarrow> ('a, 'u) fetch_outcome" where
  "fetchAll send maxBackoff pageSize maxPages maxItems u =
     fetchLoop send maxBackoff pageSize maxPages maxItems None [] 0 [] [] u"

subsection \<open>Simulated upstreams\<close>

text \<open>The cursors of the simulated upstreams are offsets into the item sequence.\<close>

definition offsetOf :: "nat option \<Rightarrow> nat" where
  "offsetOf cursor = (case cursor of None \<Rightarrow> 0 | Some k \<Rightarrow> k)"

text \<open>
  An upstream that holds the items \<open>xs\<close> and serves them in pages of the requested size;
  it gives a next cursor as long as items remain after the page.
\<close>

definition pagedUpstream ::
  "'a list \<Rightarrow> 'u \<Rightarrow> nat option \<Rightarrow> nat \<Rightarrow> (request_error + (nat, 'a) page) \<times> 'u" where
  "pagedUpstream xs u cursor pageSize =
     (Inr \<lparr>page_items = take pageSize (drop (offsetOf cursor) xs),
           next_cursor = (if offsetOf cursor + pageSize < length xs
                          then Some (offsetOf cursor + pageSize) else None)\<rparr>, u)"

text \<open>
  An upstream that never ends: item \<open>i\<close> is \<open>f i\<close>, and every page comes with a next cursor.
\<close>

definition endlessUpstream ::
  "(nat \<Rightarrow> 'a) \<Rightarrow> 'u \<Rightarrow> nat option \<Rightarrow> nat \<Rightarrow> (request_error + (nat, 'a) page) \<times> 'u" where
  "endlessUpstream f u cursor pageSize =
     (Inr \<lparr>page_items = map f [offsetOf cursor ..< offsetOf cursor + pageSize],
           next_cursor = Some (offsetOf cursor + pageSize)\<rparr>, u)"

text \<open>
  An upstream that answers as \<open>base\<close> does, except that every request for page \<open>K\<close>
  (pages counted from 1) fails with \<open>err\<close>.
\<close>

definition failingUpstream ::
  "nat \<Rightarrow> request_error \<Rightarrow> ('u \<Rightarrow> nat option \<Rightarrow> nat \<Rightarrow> (request_error + (nat, 'a) page) \<times> 'u) \<Rightarrow>
   'u \<Rightarrow> nat option \<Rightarrow> nat \<Rightarrow> (request_error + (nat, 'a) page) \<times> 'u" where
  "failingUpstream K err base u cursor pageSize =
     (if offsetOf cursor = (K - 1) * pageSize then (Inl err, u) else base u cursor pageSize)"

section \<open>Body normalization\<close>

definition lineBreak :: char where
  "lineBreak = CHR 0x0A"

text \<open>
  Modelled from the spec: the paragraph conversion of the campaign workflow is not among
  the source files; \<open>breaksToBoundaries\<close>, \<open>isWrapped\<close> and \<open>normalizeBody\<close> follow
  section 4.4 of the specification. Every line break becomes a paragraph boundary (the end
  of one paragraph block and the start of the next).
\<close>

fun breaksToBoundaries :: "string \<Rightarrow> string" where
  "breaksToBoundaries [] = []"
| "breaksToBoundaries (c # cs) =
     (if c = lineBreak then ''</p><p>'' @ breaksToBoundaries cs else c # breaksToBoundaries cs)"

text \<open>Text that already is a run of paragraph blocks: it opens and closes as one.\<close>

definition isWrapped :: "string \<Rightarrow> bool" where
  "isWrapped s = (prefix ''<p>'' s \<and> suffix ''</p>'' s)"

text \<open>
  Modelled from the spec: the body-to-HTML transform, which is not among the source
  files. The boundaries are put in, and the text is wrapped as a paragraph block unless it
  already is one (converted text is not wrapped twice).
\<close>

definition normalizeBody :: "string \<Rightarrow> string" where
  "normalizeBody s =
     (let t = breaksToBoundaries s in if isWrapped t then t else ''<p>'' @ t @ ''</p>'')"

section \<open>Properties of token verification and the tool callback\<close>

lemma truthy_Some: "truthy (Some s) = (s \<noteq> [])"
  by (simp add: truthy_def)

lemma truthy_None: "truthy None = False"
  by (simp add: truthy_def)

lemma verifyToken_Some:
  "snd (verifyToken req bt) = Some info \<Longrightarrow> \<exists>t. bt = Some t \<and> 10 \<le> length t \<and> info = authInfoOf t"
  by (cases bt) (auto simp: verifyToken_def truthy_def split: if_splits)

lemma verifyToken_route_Some:
  "snd (verifyToken_route req bt) = Some info \<Longrightarrow>
     \<exists>t. bt = Some t \<and> 10 \<le> length t \<and> info = authInfoOf t"
  by (cases bt) (auto simp: verifyToken_route_def truthy_def split: if_splits)

lemma contextApiKey_authInfoOf:
  "contextApiKey (Some \<lparr>auth = Some (authInfoOf t), authInfo = a\<rparr>) = Some t"
  by (simp add: contextApiKey_def authInfoOf_def)

lemma contextApiKey_sdkExtra: "contextApiKey (Some (sdkExtra a)) = None"
  by (simp add: contextApiKey_def sdkExtra_def)

text \<open>
  C8. \<open>verifyToken\<close> rejects exactly the missing and the short tokens. With no bearer
  token, and with one of fewer than 10 characters, it returns \<open>undefined\<close>; with one of
  10 characters or more it returns the \<open>AuthInfo\<close> whose token and API key are the bearer
  token and whose scopes are \<open>read\<close> and \<open>write\<close>. The result is a function of the token
  alone: the request is not read and nothing is asked of the upstream. The app route's
  \<open>verifyToken\<close> returns the same value.
\<close>

theorem verifyToken_rejects_exactly_short_or_missing:
  "snd (verifyToken req bearerToken) =
     (case bearerToken of
        None \<Rightarrow> None
      | Some t \<Rightarrow>
          if length t < 10 then None
          else Some \<lparr>token = t, scopes = [''read'', ''write''], clientId = ''instantly-user'',
                     extra = Some \<lparr>apiKey = Some t\<rparr>\<rparr>) \<and>
   snd (verifyToken_route req bearerToken) = snd (verifyToken req bearerToken)"
  by (cases bearerToken)
     (auto simp: verifyToken_def verifyToken_route_def truthy_def authInfoOf_def)

theorem verifyToken_rejects_exactly_short_or_missing_witness:
  "snd (verifyToken () None) = None \<and>
   snd (verifyToken () (Some ''short-key'')) = None \<and>
   snd (verifyToken () (Some ''0123456789'')) =
     Some \<lparr>token = ''0123456789'', scopes = [''read'', ''write''], clientId = ''instantly-user'',
            extra = Some \<lparr>apiKey = Some ''0123456789''\<rparr>\<rparr>"
  using verifyToken_rejects_exactly_short_or_missing [of "()" None]
    verifyToken_rejects_exactly_short_or_missing [of "()" "Some ''short-key''"]
    verifyToken_rejects_exactly_short_or_missing [of "()" "Some ''0123456789''"]
  by simp

lemma toolCallback_calls:
  "contextApiKey ex = Some k \<Longrightarrow> k \<noteq> [] \<Longrightarrow>
     fst (toolCallback executeToolDirectly stringify name args ex) = [(name, args, k)]"
  by (simp add: toolCallback_def Let_def truthy_def split: sum.split tool_result.split)

text \<open>
  What \<open>verifyToken\<close> (of either handler) does with a token it accepts: the \<open>AuthInfo\<close>
  carries the string unchanged as \<open>token\<close> and as \<open>extra.apiKey\<close>. A callback whose context
  held this \<open>AuthInfo\<close> under \<open>auth\<close> would pass the same string to \<open>executeToolDirectly\<close>.
\<close>

lemma verifyToken_keeps_token:
  assumes "snd (verifyToken req (Some bearerToken)) = Some info \<or>
           snd (verifyToken_route req (Some bearerToken)) = Some info"
  shows "token info = bearerToken \<and> extra info = Some \<lparr>apiKey = Some bearerToken\<rparr> \<and>
         fst (toolCallback executeToolDirectly stringify name args
                (Some \<lparr>auth = Some info, authInfo = a\<rparr>)) = [(name, args, bearerToken)]"
proof -
  from assms have "\<exists>t. Some bearerToken = Some t \<and> 10 \<le> length t \<and> info = authInfoOf t"
  proof
    assume "snd (verifyToken req (Some bearerToken)) = Some info"
    then show ?thesis by (rule verifyToken_Some)
  next
    assume "snd (verifyToken_route req (Some bearerToken)) = Some info"
    then show ?thesis by (rule verifyToken_route_Some)
  qed
  then have info: "info = authInfoOf bearerToken" and len: "10 \<le> length bearerToken"
    by simp_all
  have key: "contextApiKey (Some \<lparr>auth = Some info, authInfo = a\<rparr>) = Some bearerToken"
    unfolding info by (rule contextApiKey_authInfoOf)
  from len have ne: "bearerToken \<noteq> []" by auto
  have calls: "fst (toolCallback executeToolDirectly stringify name args
                (Some \<lparr>auth = Some info, authInfo = a\<rparr>)) = [(name, args, bearerToken)]"
    using key ne by (rule toolCallback_calls)
  have tok: "token info = bearerToken \<and> extra info = Some \<lparr>apiKey = Some bearerToken\<rparr>"
    by (simp add: info authInfoOf_def)
  from tok calls show ?thesis by simp
qed

text \<open>
  C3. The accepted token does not reach the tool. \<open>verifyToken\<close> accepts the token
  \<open>0123456789abcdef\<close> and returns the \<open>AuthInfo\<close> that holds it; the context the SDK
  builds from the result of \<open>verifyToken\<close> has no \<open>auth\<close> property, so for every bearer
  token the callback reads no API key, makes no call to \<open>executeToolDirectly\<close> and returns
  the error payload of the \<open>API key required\<close> error.
\<close>

theorem accepted_token_not_read_by_callback:
  "snd (verifyToken req (Some ''0123456789abcdef'')) = Some (authInfoOf ''0123456789abcdef'') \<and>
   contextApiKey (Some (sdkExtra (snd (verifyToken req bearerToken)))) = None \<and>
   toolCallback executeToolDirectly stringify name args
       (Some (sdkExtra (snd (verifyToken req bearerToken)))) =
     ([], \<lparr>content = [\<lparr>ctype = ''text'',
             ctext = ''Error: API key required. Please provide your Instantly.ai API key.''\<rparr>],
           isError = Some True\<rparr>)"
proof -
  have acc: "snd (verifyToken req (Some ''0123456789abcdef'')) = Some (authInfoOf ''0123456789abcdef'')"
    by (simp add: verifyToken_def truthy_def)
  have key: "contextApiKey (Some (sdkExtra (snd (verifyToken req bearerToken)))) = None"
    by (rule contextApiKey_sdkExtra)
  then have "toolCallback executeToolDirectly stringify name args
       (Some (sdkExtra (snd (verifyToken req bearerToken)))) = ([], errorPayload apiKeyRequired)"
    by (simp add: toolCallback_def Let_def truthy_def)
  then have "toolCallback executeToolDirectly stringify name args
       (Some (sdkExtra (snd (verifyToken req bearerToken)))) =
     ([], \<lparr>content = [\<lparr>ctype = ''text'',
             ctext = ''Error: API key required. Please provide your Instantly.ai API key.''\<rparr>],
           isError = Some True\<rparr>)"
    by (simp add: errorPayload_def apiKeyRequired_def)
  with acc key show ?thesis by simp
qed

lemma toolCallback_no_key:
  "\<not> truthy (contextApiKey ex) \<Longrightarrow>
     toolCallback executeToolDirectly stringify name args ex = ([], errorPayload apiKeyRequired)"
  by (simp add: toolCallback_def Let_def truthy_def)

lemma toolCallback_exec_throws:
  "contextApiKey ex = Some k \<Longrightarrow> k \<noteq> [] \<Longrightarrow> executeToolDirectly name args k = Inl e \<Longrightarrow>
     toolCallback executeToolDirectly stringify name args ex = ([(name, args, k)], errorPayload e)"
  by (simp add: toolCallback_def Let_def truthy_def)

lemma toolCallback_stringify_throws:
  "contextApiKey ex = Some k \<Longrightarrow> k \<noteq> [] \<Longrightarrow> executeToolDirectly name args k = Inr (ResultValue j) \<Longrightarrow>
   stringify j = Inl e \<Longrightarrow>
     toolCallback executeToolDirectly stringify name args ex = ([(name, args, k)], errorPayload e)"
  by (simp add: toolCallback_def Let_def truthy_def)

lemma toolCallback_string_result:
  "contextApiKey ex = Some k \<Longrightarrow> k \<noteq> [] \<Longrightarrow> executeToolDirectly name args k = Inr (ResultString r) \<Longrightarrow>
     toolCallback executeToolDirectly stringify name args ex = ([(name, args, k)], successPayload r)"
  by (simp add: toolCallback_def Let_def truthy_def)

lemma toolCallback_value_result:
  "contextApiKey ex = Some k \<Longrightarrow> k \<noteq> [] \<Longrightarrow> executeToolDirectly name args k = Inr (ResultValue j) \<Longrightarrow>
   stringify j = Inr r \<Longrightarrow>
     toolCallback executeToolDirectly stringify name args ex = ([(name, args, k)], successPayload r)"
  by (simp add: toolCallback_def Let_def truthy_def)

lemma toolCallback_cases:
  "(\<exists>s. snd (toolCallback executeToolDirectly stringify name args ex) = successPayload s) \<or>
   (\<exists>e. snd (toolCallback executeToolDirectly stringify name args ex) = errorPayload e)"
  unfolding toolCallback_def Let_def
  by (simp split: sum.split tool_result.split) blast

lemma errorPayload_shape:
  "errorPayload e =
     \<lparr>content = [\<lparr>ctype = ''text'', ctext = ''Error: '' @ message e\<rparr>], isError = Some True\<rparr>"
  by (simp add: errorPayload_def)

text \<open>
  C4. The tool callback always returns a payload, and it is one of two: a success payload
  (one text item, no \<open>isError\<close>) or an error payload (one text item \<open>Error: \<close> followed by
  the error's message, and \<open>isError\<close> true). When the context holds no API key the payload
  is the error payload of the \<open>API key required\<close> error and \<open>executeToolDirectly\<close> is not
  called. When \<open>executeToolDirectly\<close> throws, or the stringification of its result does,
  the payload is the error payload of what was thrown. When \<open>executeToolDirectly\<close> returns,
  it was called once, with the tool's name, the arguments and the key, and the payload is
  the success payload of its result: the string itself, or the stringified value.
\<close>

theorem toolCallback_success_or_error:
  "((\<exists>s. snd (toolCallback executeToolDirectly stringify name args ex) =
          \<lparr>content = [\<lparr>ctype = ''text'', ctext = s\<rparr>], isError = None\<rparr>) \<or>
    (\<exists>e. snd (toolCallback executeToolDirectly stringify name args ex) =
          \<lparr>content = [\<lparr>ctype = ''text'', ctext = ''Error: '' @ message e\<rparr>], isError = Some True\<rparr>)) \<and>
   (\<not> truthy (contextApiKey ex) \<longrightarrow>
      toolCallback executeToolDirectly stringify name args ex =
        ([], \<lparr>content = [\<lparr>ctype = ''text'',
                ctext = ''Error: API key required. Please provide your Instantly.ai API key.''\<rparr>],
              isError = Some True\<rparr>)) \<and>
   (\<forall>k e. contextApiKey ex = Some k \<and> k \<noteq> [] \<and> executeToolDirectly name args k = Inl e \<longrightarrow>
      snd (toolCallback executeToolDirectly stringify name args ex) =
        \<lparr>content = [\<lparr>ctype = ''text'', ctext = ''Error: '' @ message e\<rparr>], isError = Some True\<rparr>) \<and>
   (\<forall>k j e. contextApiKey ex = Some k \<and> k \<noteq> [] \<and>
        executeToolDirectly name args k = Inr (ResultValue j) \<and> stringify j = Inl e \<longrightarrow>
      snd (toolCallback executeToolDirectly stringify name args ex) =
        \<lparr>content = [\<lparr>ctype = ''text'', ctext = ''Error: '' @ message e\<rparr>], isError = Some True\<rparr>) \<and>
   (\<forall>k r. contextApiKey ex = Some k \<and> k \<noteq> [] \<and>
        executeToolDirectly name args k = Inr (ResultString r) \<longrightarrow>
      toolCallback executeToolDirectly stringify name args ex =
        ([(name, args, k)], \<lparr>content = [\<lparr>ctype = ''text'', ctext = r\<rparr>], isError = None\<rparr>)) \<and>
   (\<forall>k j r. contextApiKey ex = Some k \<and> k \<noteq> [] \<and>
        executeToolDirectly name args k = Inr (ResultValue j) \<and> stringify j = Inr r \<longrightarrow>
      toolCallback executeToolDirectly stringify name args ex =
        ([(name, args, k)], \<lparr>content = [\<lparr>ctype = ''text'', ctext = r\<rparr>], isError = None\<rparr>))"
proof (intro conjI allI impI)
  show "(\<exists>s. snd (toolCallback executeToolDirectly stringify name args ex) =
          \<lparr>content = [\<lparr>ctype = ''text'', ctext = s\<rparr>], isError = None\<rparr>) \<or>
    (\<exists>e. snd (toolCallback executeToolDirectly stringify name args ex) =
          \<lparr>content = [\<lparr>ctype = ''text'', ctext = ''Error: '' @ message e\<rparr>], isError = Some True\<rparr>)"
    using toolCallback_cases [of executeToolDirectly stringify name args ex]
    by (simp only: successPayload_def errorPayload_shape)
next
  assume "\<not> truthy (contextApiKey ex)"
  then show "toolCallback executeToolDirectly stringify name args ex =
        ([], \<lparr>content = [\<lparr>ctype = ''text'',
                ctext = ''Error: API key required. Please provide your Instantly.ai API key.''\<rparr>],
              isError = Some True\<rparr>)"
    by (simp add: toolCallback_no_key errorPayload_def apiKeyRequired_def)
next
  fix k e
  assume "contextApiKey ex = Some k \<and> k \<noteq> [] \<and> executeToolDirectly name args k = Inl e"
  then show "snd (toolCallback executeToolDirectly stringify name args ex) =
        \<lparr>content = [\<lparr>ctype = ''text'', ctext = ''Error: '' @ message e\<rparr>], isError = Some True\<rparr>"
    by (simp add: toolCallback_exec_throws errorPayload_def)
next
  fix k j e
  assume "contextApiKey ex = Some k \<and> k \<noteq> [] \<and>
        executeToolDirectly name args k = Inr (ResultValue j) \<and> stringify j = Inl e"
  then show "snd (toolCallback executeToolDirectly stringify name args ex) =
        \<lparr>content = [\<lparr>ctype = ''text'', ctext = ''Error: '' @ message e\<rparr>], isError = Some True\<rparr>"
    by (simp add: toolCallback_stringify_throws errorPayload_def)
next
  fix k r
  assume "contextApiKey ex = Some k \<and> k \<noteq> [] \<and>
        executeToolDirectly name args k = Inr (ResultString r)"
  then show "toolCallback executeToolDirectly stringify name args ex =
        ([(name, args, k)], \<lparr>content = [\<lparr>ctype = ''text'', ctext = r\<rparr>], isError = None\<rparr>)"
    by (simp add: toolCallback_string_result successPayload_def)
next
  fix k j r
  assume "contextApiKey ex = Some k \<and> k \<noteq> [] \<and>
        executeToolDirectly name args k = Inr (ResultValue j) \<and> stringify j = Inr r"
  then show "toolCallback executeToolDirectly stringify name args ex =
        ([(name, args, k)], \<lparr>content = [\<lparr>ctype = ''text'', ctext = r\<rparr>], isError = None\<rparr>)"
    by (simp add: toolCallback_value_result successPayload_def)
qed

theorem toolCallback_success_or_error_witness:
  "toolCallback (\<lambda>n a k. Inl (JsError ''upstream said no'')) (\<lambda>j::unit. Inr ''{}'')
      ''create_campaign'' () None =
     ([], \<lparr>content = [\<lparr>ctype = ''text'',
             ctext = ''Error: API key required. Please provide your Instantly.ai API key.''\<rparr>],
           isError = Some True\<rparr>) \<and>
   snd (toolCallback (\<lambda>n a k. Inl (JsError ''upstream said no'')) (\<lambda>j::unit. Inr ''{}'')
      ''create_campaign'' ()
      (Some \<lparr>auth = Some (authInfoOf ''0123456789''), authInfo = None\<rparr>)) =
     \<lparr>content = [\<lparr>ctype = ''text'', ctext = ''Error: upstream said no''\<rparr>], isError = Some True\<rparr> \<and>
   toolCallback (\<lambda>n a k. Inr (ResultString ''3 campaigns'')) (\<lambda>j::unit. Inr ''{}'')
      ''list_campaigns'' ()
      (Some \<lparr>auth = Some (authInfoOf ''0123456789''), authInfo = None\<rparr>) =
     ([(''list_campaigns'', (), ''0123456789'')],
      \<lparr>content = [\<lparr>ctype = ''text'', ctext = ''3 campaigns''\<rparr>], isError = None\<rparr>) \<and>
   toolCallback (\<lambda>n a k. Inr (ResultValue ())) (\<lambda>j::unit. Inr ''{}'')
      ''list_campaigns'' ()
      (Some \<lparr>auth = Some (authInfoOf ''0123456789''), authInfo = None\<rparr>) =
     ([(''list_campaigns'', (), ''0123456789'')],
      \<lparr>content = [\<lparr>ctype = ''text'', ctext = ''{}''\<rparr>], isError = None\<rparr>)"
proof -
  let ?ex = "Some \<lparr>auth = Some (authInfoOf ''0123456789''), authInfo = None\<rparr>"
  let ?throws = "\<lambda>(n::string) (a::unit) (k::string). (Inl (JsError ''upstream said no'') :: js_error + unit tool_result)"
  let ?says = "\<lambda>(n::string) (a::unit) (k::string). (Inr (ResultString ''3 campaigns'') :: js_error + unit tool_result)"
  let ?gives = "\<lambda>(n::string) (a::unit) (k::string). (Inr (ResultValue ()) :: js_error + unit tool_result)"
  let ?str = "\<lambda>j::unit. (Inr ''{}'' :: js_error + string)"
  have a: "\<not> truthy (contextApiKey None)"
    by (simp add: contextApiKey_def truthy_def)
  have key: "contextApiKey ?ex = Some ''0123456789''"
    by (rule contextApiKey_authInfoOf)
  have ne: "''0123456789'' \<noteq> []" by simp
  note t1 = toolCallback_success_or_error [of ?throws ?str "''create_campaign''" "()" None]
  note t2 = toolCallback_success_or_error [of ?throws ?str "''create_campaign''" "()" ?ex]
  note t3 = toolCallback_success_or_error [of ?says ?str "''list_campaigns''" "()" ?ex]
  note t4 = toolCallback_success_or_error [of ?gives ?str "''list_campaigns''" "()" ?ex]
  have c1: "toolCallback ?throws ?str ''create_campaign'' () None =
     ([], \<lparr>content = [\<lparr>ctype = ''text'',
             ctext = ''Error: API key required. Please provide your Instantly.ai API key.''\<rparr>],
           isError = Some True\<rparr>)"
    using t1 [THEN conjunct2, THEN conjunct1] a by (rule mp)
  have c2: "snd (toolCallback ?throws ?str ''create_campaign'' () ?ex) =
     \<lparr>content = [\<lparr>ctype = ''text'', ctext = ''Error: upstream said no''\<rparr>], isError = Some True\<rparr>"
    using t2 [THEN conjunct2, THEN conjunct2, THEN conjunct1, THEN spec, THEN spec,
        of "''0123456789''" "JsError ''upstream said no''"] key ne
    by simp
  have c3: "toolCallback ?says ?str ''list_campaigns'' () ?ex =
     ([(''list_campaigns'', (), ''0123456789'')],
      \<lparr>content = [\<lparr>ctype = ''text'', ctext = ''3 campaigns''\<rparr>], isError = None\<rparr>)"
    using t3 [THEN conjunct2, THEN conjunct2, THEN conjunct2, THEN conjunct2, THEN conjunct1,
        THEN spec, THEN spec, of "''0123456789''" "''3 campaigns''"] key ne
    by simp
  have c4: "toolCallback ?gives ?str ''list_campaigns'' () ?ex =
     ([(''list_campaigns'', (), ''0123456789'')],
      \<lparr>content = [\<lparr>ctype = ''text'', ctext = ''{}''\<rparr>], isError = None\<rparr>)"
    using t4 [THEN conjunct2, THEN conjunct2, THEN conjunct2, THEN conjunct2, THEN conjunct2,
        THEN spec, THEN spec, THEN spec, of "''0123456789''" "()" "''{}''"] key ne
    by simp
  from c1 c2 c3 c4 show ?thesis by (intro conjI)
qed

section \<open>What the serverless function of api/mcp-oauth.ts logs\<close>

lemma handler_log_prefix:
  "take 3 (fst (handler authHandler stringify stackOf req)) = incomingLog req"
  by (simp add: handler_def incomingLog_def split: sum.split)

text \<open>
  C1. The log of the function does hold the method and the url of the request, but it is
  not free of the API key: for a request that carries the key \<open>k\<close> as its bearer token, the
  first three entries of the log are the method and url, the JSON text of all headers (the
  \<open>authorization\<close> header with the key among them), and the \<open>authorization\<close> header by
  itself. This holds whatever the wrapped handler answers.
\<close>

theorem handler_logs_bearer_token:
  "take 3 (fst (handler authHandler stringify stackOf
       \<lparr>vmethod = Some ''POST'', vurl = Some ''/api/mcp'',
        vheaders = [(''host'', HSingle ''instantly-mcp.vercel.app''),
                    (''authorization'', HSingle (''Bearer '' @ k))],
        vbody = body\<rparr>)) =
     [(ConsoleLog, [LStr ''[Vercel] Incoming request:'', LStr ''POST'', LStr ''/api/mcp'']),
      (ConsoleLog, [LStr ''[Vercel] Headers:'',
         LJsonText (JObj [(''host'', JStr ''instantly-mcp.vercel.app''),
                          (''authorization'', JStr (''Bearer '' @ k))])]),
      (ConsoleLog, [LStr ''[Vercel] Authorization header:'', LStr (''Bearer '' @ k)])]"
  by (simp add: handler_log_prefix incomingLog_def logOpt_def headersJson_def headerJson_def
        orElse_def truthyHeader_def logHeader_def)

text \<open>
  The earlier revision of the function logs nothing of a request that is answered.
\<close>

lemma handler_quiet_log:
  "authHandler
     ((buildRequest stringify req)
        \<lparr>w_headers := map (\<lambda>(k, v). (k, templateHeader (Some v))) (vheaders req)\<rparr>) = Inr response \<Longrightarrow>
   fst (handler_quiet authHandler stringify req) = []"
  by (simp add: handler_quiet_def)

section \<open>Properties of the cached server\<close>

lemma createServer_cached:
  "cachedApp s = Some app \<Longrightarrow> createServer build s = (Inr app, s)"
  by (simp add: createServer_def)

lemma createServer_Inr_cached:
  "createServer build s = (Inr app, s') \<Longrightarrow> cachedApp s' = Some app"
  by (auto simp: createServer_def say_def Let_def split: option.splits sum.splits prod.splits)

lemma createServer_times_cached:
  "cachedApp s = Some app \<Longrightarrow> createServer_times n build s = (replicate n (Inr app), s)"
  by (induction n) (simp_all add: createServer_cached)

lemma createServer_first:
  "cachedApp s = None \<Longrightarrow> build (world s) = (Inr (Some app), w) \<Longrightarrow>
     createServer build s =
       (Inr app,
        s\<lparr>cachedApp := Some app, world := w,
          console := console s @
            [(ConsoleError, [LStr ''[Vercel] Initializing Instantly MCP Server...'']),
             (ConsoleError, [LStr ''[Vercel] Express app initialized successfully''])]\<rparr>)"
  by (simp add: createServer_def say_def Let_def)

lemma serverlessHandler_cached:
  "serverInstance s = Some app \<Longrightarrow>
     serverlessHandler build runApp req s = serverlessHandler build' runApp req s \<and>
     serverInstance (snd (serverlessHandler build runApp req s)) = Some app \<and>
     cachedApp (snd (serverlessHandler build runApp req s)) = cachedApp s"
  by (simp add: serverlessHandler_def say_def Let_def split: prod.split sum.split)

lemma serverlessHandler_first:
  "serverInstance s = None \<Longrightarrow> createServer build s = (Inr app, s1) \<Longrightarrow>
     serverInstance (snd (serverlessHandler build runApp req s)) = Some app \<and>
     cachedApp (snd (serverlessHandler build runApp req s)) = Some app"
  by (simp add: serverlessHandler_def say_def Let_def createServer_Inr_cached
        split: prod.split sum.split)

lemma serverlessHandler_logged_cached:
  "serverInstance s = Some app \<Longrightarrow>
     serverlessHandler_logged importAdapter build runApp stackOf development methodOf urlOf req s =
     serverlessHandler_logged importAdapter' build' runApp stackOf development methodOf urlOf req s"
  by (simp add: serverlessHandler_logged_def say_def Let_def)

text \<open>
  C9. Server construction is a lazily initialised singleton. Once a call of
  \<open>createServer\<close> has returned an app, that app is cached, and any number of further
  calls, whatever the construction would now produce, return the same app and leave the
  state (the world and the console included) as it is: nothing is initialised again. The
  first call on an empty cache, when the construction succeeds, logs the two
  initialisation lines, caches the new app and returns it. The serverless function caches
  the app of its first successful \<open>createServer\<close> call in \<open>serverInstance\<close>, and from then
  on answers without calling \<open>createServer\<close>: its result no longer depends on the
  construction.
\<close>

theorem createServer_lazy_singleton:
  "(createServer build s = (Inr app, s') \<longrightarrow>
      cachedApp s' = Some app \<and>
      (\<forall>n build'. createServer_times n build' s' = (replicate n (Inr app), s'))) \<and>
   (cachedApp s = None \<and> build (world s) = (Inr (Some app), w) \<longrightarrow>
      createServer build s =
        (Inr app,
         s\<lparr>cachedApp := Some app, world := w,
           console := console s @
             [(ConsoleError, [LStr ''[Vercel] Initializing Instantly MCP Server...'']),
              (ConsoleError, [LStr ''[Vercel] Express app initialized successfully''])]\<rparr>)) \<and>
   (serverInstance s = None \<and> createServer build s = (Inr app, s') \<longrightarrow>
      serverInstance (snd (serverlessHandler build runApp req s)) = Some app \<and>
      cachedApp (snd (serverlessHandler build runApp req s)) = Some app) \<and>
   (serverInstance s = Some app \<longrightarrow>
      serverlessHandler build runApp req s = serverlessHandler build' runApp req s \<and>
      serverInstance (snd (serverlessHandler build runApp req s)) = Some app \<and>
      cachedApp (snd (serverlessHandler build runApp req s)) = cachedApp s)"
proof (intro conjI impI allI)
  assume a: "createServer build s = (Inr app, s')"
  then show c: "cachedApp s' = Some app" by (rule createServer_Inr_cached)
  fix n build'
  from c show "createServer_times n build' s' = (replicate n (Inr app), s')"
    by (rule createServer_times_cached)
next
  assume "cachedApp s = None \<and> build (world s) = (Inr (Some app), w)"
  then show "createServer build s =
        (Inr app,
         s\<lparr>cachedApp := Some app, world := w,
           console := console s @
             [(ConsoleError, [LStr ''[Vercel] Initializing Instantly MCP Server...'']),
              (ConsoleError, [LStr ''[Vercel] Express app initialized successfully''])]\<rparr>)"
    by (simp add: createServer_first)
next
  assume a: "serverInstance s = None \<and> createServer build s = (Inr app, s')"
  then have "serverInstance (snd (serverlessHandler build runApp req s)) = Some app \<and>
      cachedApp (snd (serverlessHandler build runApp req s)) = Some app"
    by (intro serverlessHandler_first) simp_all
  then show "serverInstance (snd (serverlessHandler build runApp req s)) = Some app"
    and "cachedApp (snd (serverlessHandler build runApp req s)) = Some app"
    by simp_all
next
  assume a: "serverInstance s = Some app"
  note f = serverlessHandler_cached [OF a, of build runApp req build']
  show "serverlessHandler build runApp req s = serverlessHandler build' runApp req s"
    by (rule f [THEN conjunct1])
  show "serverInstance (snd (serverlessHandler build runApp req s)) = Some app"
    by (rule f [THEN conjunct2, THEN conjunct1])
  show "cachedApp (snd (serverlessHandler build runApp req s)) = cachedApp s"
    by (rule f [THEN conjunct2, THEN conjunct2])
qed

theorem createServer_lazy_singleton_witness:
  "createServer (\<lambda>w. (Inr (Some w), Suc w))
     \<lparr>cachedApp = None, serverInstance = None, world = 0::nat, console = []\<rparr> =
     (Inr 0,
      \<lparr>cachedApp = Some 0, serverInstance = None, world = 1,
       console = [(ConsoleError, [LStr ''[Vercel] Initializing Instantly MCP Server...'']),
                  (ConsoleError, [LStr ''[Vercel] Express app initialized successfully''])]\<rparr>) \<and>
   createServer_times 2 (\<lambda>w. (Inr (Some w), Suc w))
     \<lparr>cachedApp = Some 0, serverInstance = None, world = 1,
      console = [(ConsoleError, [LStr ''[Vercel] Initializing Instantly MCP Server...'']),
                 (ConsoleError, [LStr ''[Vercel] Express app initialized successfully''])]\<rparr> =
     ([Inr 0, Inr 0],
      \<lparr>cachedApp = Some 0, serverInstance = None, world = 1,
       console = [(ConsoleError, [LStr ''[Vercel] Initializing Instantly MCP Server...'']),
                  (ConsoleError, [LStr ''[Vercel] Express app initialized successfully''])]\<rparr>)"
proof -
  let ?build = "\<lambda>w::nat. (Inr (Some w) :: js_error + nat option, Suc w)"
  let ?s0 = "\<lparr>cachedApp = None, serverInstance = None, world = 0::nat, console = []\<rparr>"
  let ?s1 = "\<lparr>cachedApp = Some (0::nat), serverInstance = None, world = 1::nat,
       console = [(ConsoleError, [LStr ''[Vercel] Initializing Instantly MCP Server...'']),
                  (ConsoleError, [LStr ''[Vercel] Express app initialized successfully''])]\<rparr>"
  have first: "createServer ?build ?s0 = (Inr 0, ?s1)"
    by (simp add: createServer_def say_def Let_def)
  note t = createServer_lazy_singleton [of ?build ?s0 0 ?s1, THEN conjunct1, THEN mp, OF first]
  have "createServer_times 2 ?build ?s1 = (replicate 2 (Inr 0), ?s1)"
    by (rule t [THEN conjunct2, THEN spec, THEN spec])
  then have "createServer_times 2 ?build ?s1 = ([Inr 0, Inr 0], ?s1)"
    by (simp add: numeral_2_eq_2)
  with first show ?thesis by (rule conjI)
qed

section \<open>Properties of the OAuth endpoints\<close>

text \<open>
  C10. The introspection route reports every token as active: a \<open>POST\<close> to
  \<open>/oauth/introspect\<close> is answered with the object \<open>active: true\<close>, \<open>scope: read write\<close>,
  \<open>token_type: Bearer\<close> (and one log line), whatever the headers, the body, the
  configuration and the environment are.
\<close>

theorem introspect_always_active:
  "h_method req = ''POST'' \<Longrightarrow> h_path req = ''/oauth/introspect'' \<Longrightarrow>
     setupOAuthEndpoints config env req =
       Some ([(ConsoleError, [LStr (''[HTTP] '' @ emojiMagnifier @ '' OAuth token introspection'')])],
             JObj [(''active'', JBool True), (''scope'', JStr ''read write''),
                   (''token_type'', JStr ''Bearer'')])"
  by (simp add: setupOAuthEndpoints_def oauthIntrospect_def httpLog_def)

theorem introspect_always_active_witness:
  "setupOAuthEndpoints \<lparr>host = ''localhost'', port = 3000\<rparr> \<lparr>NODE_ENV = None, VERCEL = None\<rparr>
     \<lparr>h_method = ''POST'', h_path = ''/oauth/introspect'',
      h_headers = [(''content-type'', ''application/x-www-form-urlencoded'')],
      h_body = ''token=not-a-key''\<rparr> =
     Some ([(ConsoleError, [LStr (''[HTTP] '' @ emojiMagnifier @ '' OAuth token introspection'')])],
           JObj [(''active'', JBool True), (''scope'', JStr ''read write''),
                 (''token_type'', JStr ''Bearer'')])"
  by (rule introspect_always_active) simp_all

lemma getBaseUrl_local:
  "getBaseUrl \<lparr>host = ''localhost'', port = 3000\<rparr> \<lparr>NODE_ENV = None, VERCEL = None\<rparr> =
     ''http://localhost:3000''"
  by code_simp

section \<open>Properties of the pagination engine\<close>

lemma requestPage_paged:
  "requestPage (pagedUpstream xs) mb P cursor u =
     (Inr \<lparr>page_items = take P (drop (offsetOf cursor) xs),
           next_cursor = (if offsetOf cursor + P < length xs
                          then Some (offsetOf cursor + P) else None)\<rparr>, [], u)"
  by (simp add: requestPage_def pagedUpstream_def)

lemma requestPage_endless:
  "requestPage (endlessUpstream f) mb P cursor u =
     (Inr \<lparr>page_items = map f [offsetOf cursor ..< offsetOf cursor + P],
           next_cursor = Some (offsetOf cursor + P)\<rparr>, [], u)"
  by (simp add: requestPage_def endlessUpstream_def)

lemma requestPage_failing_hit:
  "offsetOf cursor = (K - 1) * P \<Longrightarrow>
     \<exists>w. requestPage (failingUpstream K e base) mb P cursor u = (Inl e, w, u)"
  by (cases e) (simp_all add: requestPage_def failingUpstream_def)

lemma requestPage_failing_miss:
  "offsetOf cursor \<noteq> (K - 1) * P \<Longrightarrow>
     requestPage (failingUpstream K e (pagedUpstream xs)) mb P cursor u =
       requestPage (pagedUpstream xs) mb P cursor u"
  by (simp add: requestPage_def failingUpstream_def pagedUpstream_def)

lemma offsetOf_Some: "offsetOf (Some k) = k"
  by (simp add: offsetOf_def)

lemma offsetOf_None: "offsetOf None = 0"
  by (simp add: offsetOf_def)

lemma fetchLoop_fail:
  "requestPage send mb P cursor u = (Inl e, w, u') \<Longrightarrow>
     fetchLoop send mb P maxPages maxItems cursor acc n ps pr u =
       stop UpstreamError (Some e) acc (Suc n) (ps @ w) pr u'"
  by (subst fetchLoop.simps) simp

lemma fetchLoop_exhausted:
  "requestPage send mb P cursor u = (Inr pg, w, u') \<Longrightarrow> next_cursor pg = None \<Longrightarrow>
     fetchLoop send mb P maxPages maxItems cursor acc n ps pr u =
       stop Exhausted None (acc @ page_items pg) (Suc n) (ps @ w)
         (pr @ [length (acc @ page_items pg)]) u'"
  by (subst fetchLoop.simps) simp

lemma fetchLoop_caller_limit:
  "requestPage send mb P cursor u = (Inr pg, w, u') \<Longrightarrow> next_cursor pg \<noteq> None \<Longrightarrow>
   maxItems \<le> length (acc @ page_items pg) \<Longrightarrow>
     fetchLoop send mb P maxPages maxItems cursor acc n ps pr u =
       stop CallerLimitReached None (acc @ page_items pg) (Suc n) (ps @ w)
         (pr @ [length (acc @ page_items pg)]) u'"
  by (subst fetchLoop.simps) (simp del: not_None_eq)

lemma fetchLoop_safety_limit:
  "requestPage send mb P cursor u = (Inr pg, w, u') \<Longrightarrow> next_cursor pg \<noteq> None \<Longrightarrow>
   \<not> maxItems \<le> length (acc @ page_items pg) \<Longrightarrow> maxPages \<le> Suc n \<Longrightarrow>
     fetchLoop send mb P maxPages maxItems cursor acc n ps pr u =
       stop SafetyLimitReached None (acc @ page_items pg) (Suc n) (ps @ w)
         (pr @ [length (acc @ page_items pg)]) u'"
  by (subst fetchLoop.simps) (simp del: not_None_eq)

lemma fetchLoop_continue:
  "requestPage send mb P cursor u = (Inr pg, w, u') \<Longrightarrow> next_cursor pg \<noteq> None \<Longrightarrow>
   \<not> maxItems \<le> length (acc @ page_items pg) \<Longrightarrow> \<not> maxPages \<le> Suc n \<Longrightarrow>
     fetchLoop send mb P maxPages maxItems cursor acc n ps pr u =
       fetchLoop send mb P maxPages maxItems (next_cursor pg) (acc @ page_items pg) (Suc n)
         (ps @ w) (pr @ [length (acc @ page_items pg)]) u'"
  by (subst fetchLoop.simps) (simp del: not_None_eq)

lemma fetchLoop_paged:
  assumes P: "0 < P"
  shows "length acc + (length xs - offsetOf cursor) \<le> maxItems \<Longrightarrow>
         length xs - offsetOf cursor \<le> (maxPages - n) * P \<Longrightarrow>
         result (fetchLoop (pagedUpstream xs) mb P maxPages maxItems cursor acc n ps pr u) =
           \<lparr>items = acc @ drop (offsetOf cursor) xs, isComplete = True,
            totalFetched = length (acc @ drop (offsetOf cursor) xs), stoppedReason = Exhausted\<rparr> \<and>
         surfaced (fetchLoop (pagedUpstream xs) mb P maxPages maxItems cursor acc n ps pr u) = None"
proof (induction "length xs - offsetOf cursor" arbitrary: cursor acc n pr rule: less_induct)
  case less
  let ?off = "offsetOf cursor"
  define pg :: "(nat, 'a) page" where
    "pg = \<lparr>page_items = take P (drop ?off xs),
           next_cursor = (if ?off + P < length xs then Some (?off + P) else None)\<rparr>"
  have rp: "requestPage (pagedUpstream xs) mb P cursor u = (Inr pg, [], u)"
    by (simp add: pg_def requestPage_paged)
  show ?case
  proof (cases "?off + P < length xs")
    case False
    then have nx: "next_cursor pg = None" by (simp add: pg_def)
    from False have all: "page_items pg = drop ?off xs" by (simp add: pg_def)
    show ?thesis
      unfolding fetchLoop_exhausted [OF rp nx] by (simp add: stop_def all)
  next
    case True
    then have nx: "next_cursor pg \<noteq> None" by (simp add: pg_def)
    from True have lenp: "length (page_items pg) = P" by (simp add: pg_def)
    from True less.prems(1) have it: "\<not> maxItems \<le> length (acc @ page_items pg)"
      by (simp add: lenp)
    have pages: "\<not> maxPages \<le> Suc n"
    proof
      assume "maxPages \<le> Suc n"
      then have "maxPages - n \<le> 1" by simp
      then have "(maxPages - n) * P \<le> 1 * P" by (rule mult_le_mono1)
      then have "(maxPages - n) * P \<le> P" by (simp del: mult_le_cancel2)
      with less.prems(2) True show False by linarith
    qed
    have off': "offsetOf (next_cursor pg) = ?off + P"
      using True by (simp add: pg_def offsetOf_Some)
    have dec: "length xs - offsetOf (next_cursor pg) < length xs - ?off"
      using True P by (simp add: off')
    have i1: "length (acc @ page_items pg) + (length xs - offsetOf (next_cursor pg)) \<le> maxItems"
      using True less.prems(1) by (simp add: off' lenp)
    have "(maxPages - Suc n) * P = (maxPages - n) * P - P"
      by (simp add: diff_mult_distrib)
    with True less.prems(2)
    have i2: "length xs - offsetOf (next_cursor pg) \<le> (maxPages - Suc n) * P"
      by (simp add: off')
    have "take P (drop ?off xs) @ drop P (drop ?off xs) = drop ?off xs"
      by (rule append_take_drop_id)
    then have "page_items pg @ drop (?off + P) xs = drop ?off xs"
      by (simp add: pg_def add.commute)
    then have cat: "(acc @ page_items pg) @ drop (offsetOf (next_cursor pg)) xs = acc @ drop ?off xs"
      by (simp only: off' append_assoc)
    have step: "fetchLoop (pagedUpstream xs) mb P maxPages maxItems cursor acc n ps pr u =
        fetchLoop (pagedUpstream xs) mb P maxPages maxItems (next_cursor pg) (acc @ page_items pg)
          (Suc n) ps (pr @ [length (acc @ page_items pg)]) u"
      using fetchLoop_continue [OF rp nx it pages, of ps pr] by simp
    show ?thesis
      unfolding step
      using less.hyps [OF dec i1 i2, where pr = "pr @ [length (acc @ page_items pg)]", unfolded cat]
      by simp
  qed
qed

lemma fetchLoop_endless:
  assumes P: "0 < P"
  shows "n < maxPages \<Longrightarrow> length acc + (maxPages - n) * P < maxItems \<Longrightarrow>
         result (fetchLoop (endlessUpstream f) mb P maxPages maxItems cursor acc n ps pr u) =
           \<lparr>items = acc @ map f [offsetOf cursor ..< offsetOf cursor + (maxPages - n) * P],
            isComplete = True,
            totalFetched = length acc + (maxPages - n) * P,
            stoppedReason = SafetyLimitReached\<rparr> \<and>
         surfaced (fetchLoop (endlessUpstream f) mb P maxPages maxItems cursor acc n ps pr u) = None \<and>
         iterations (fetchLoop (endlessUpstream f) mb P maxPages maxItems cursor acc n ps pr u) =
           maxPages"
proof (induction "maxPages - n" arbitrary: cursor acc n pr)
  case 0
  then show ?case by simp
next
  case (Suc d)
  let ?off = "offsetOf cursor"
  define pg :: "(nat, 'a) page" where
    "pg = \<lparr>page_items = map f [?off ..< ?off + P], next_cursor = Some (?off + P)\<rparr>"
  have rp: "requestPage (endlessUpstream f) mb P cursor u = (Inr pg, [], u)"
    by (simp add: pg_def requestPage_endless)
  have nx: "next_cursor pg \<noteq> None" by (simp add: pg_def)
  have lenp: "length (page_items pg) = P" by (simp add: pg_def)
  from Suc.hyps(2) have d: "maxPages - n = Suc d" by simp
  from Suc.prems(2) have it: "\<not> maxItems \<le> length (acc @ page_items pg)"
    by (simp add: d lenp)
  show ?case
  proof (cases "maxPages \<le> Suc n")
    case True
    with Suc.prems(1) have last: "Suc n = maxPages" by simp
    then have one: "maxPages - n = 1" by simp
    show ?thesis
      unfolding fetchLoop_safety_limit [OF rp nx it True]
      by (simp add: stop_def one last pg_def)
  next
    case False
    from d have d': "d = maxPages - Suc n" by simp
    from False have lt: "Suc n < maxPages" by simp
    have i2: "length (acc @ page_items pg) + (maxPages - Suc n) * P < maxItems"
      using Suc.prems(2) by (simp add: d d' [symmetric] lenp)
    have off': "offsetOf (next_cursor pg) = ?off + P"
      by (simp add: pg_def offsetOf_Some)
    have "[?off ..< (?off + P) + d * P] = [?off ..< ?off + P] @ [?off + P ..< (?off + P) + d * P]"
      by (rule upt_add_eq_append) simp
    then have "map f [?off ..< ?off + (P + d * P)] =
        page_items pg @ map f [?off + P ..< ?off + P + d * P]"
      by (simp add: pg_def add.assoc)
    then have cat: "(acc @ page_items pg) @
          map f [offsetOf (next_cursor pg) ..< offsetOf (next_cursor pg) + (maxPages - Suc n) * P] =
        acc @ map f [?off ..< ?off + (maxPages - n) * P]"
      by (simp add: off' d d' [symmetric])
    have tot: "length (acc @ page_items pg) + (maxPages - Suc n) * P = length acc + (maxPages - n) * P"
      by (simp add: lenp d d' [symmetric])
    have step: "fetchLoop (endlessUpstream f) mb P maxPages maxItems cursor acc n ps pr u =
        fetchLoop (endlessUpstream f) mb P maxPages maxItems (next_cursor pg) (acc @ page_items pg)
          (Suc n) ps (pr @ [length (acc @ page_items pg)]) u"
      using fetchLoop_continue [OF rp nx it False, of ps pr] by simp
    show ?thesis
      unfolding step
      using Suc.hyps(1) [OF d' lt i2, where cursor = "next_cursor pg" and
          pr = "pr @ [length (acc @ page_items pg)]", unfolded cat tot]
      by simp
  qed
qed

lemma fetchLoop_failing:
  assumes P: "0 < P"
  shows "n \<le> j \<Longrightarrow> offsetOf cursor = n * P \<Longrightarrow> j * P < length xs \<Longrightarrow> j < maxPages \<Longrightarrow>
         length acc + (j - n) * P < maxItems \<Longrightarrow>
         result (fetchLoop (failingUpstream (Suc j) e (pagedUpstream xs)) mb P maxPages maxItems
                   cursor acc n ps pr u) =
           \<lparr>items = acc @ take ((j - n) * P) (drop (n * P) xs),
            isComplete = False,
            totalFetched = length acc + (j - n) * P,
            stoppedReason = UpstreamError\<rparr> \<and>
         surfaced (fetchLoop (failingUpstream (Suc j) e (pagedUpstream xs)) mb P maxPages maxItems
                   cursor acc n ps pr u) = Some e \<and>
         iterations (fetchLoop (failingUpstream (Suc j) e (pagedUpstream xs)) mb P maxPages maxItems
                   cursor acc n ps pr u) = Suc j"
proof (induction "j - n" arbitrary: cursor acc n ps pr)
  case 0
  then have n: "n = j" by simp
  from 0 n have hit: "offsetOf cursor = (Suc j - 1) * P" by simp
  from requestPage_failing_hit [OF hit, of e "pagedUpstream xs" mb u]
  obtain w where w: "requestPage (failingUpstream (Suc j) e (pagedUpstream xs)) mb P cursor u = (Inl e, w, u)"
    by blast
  show ?case
    unfolding fetchLoop_fail [OF w] by (simp add: stop_def n)
next
  case (Suc d)
  from Suc.hyps(2) have d: "j - n = Suc d" by simp
  then have lt: "Suc n \<le> j" by simp
  define pg :: "(nat, 'a) page" where
    "pg = \<lparr>page_items = take P (drop (n * P) xs), next_cursor = Some (n * P + P)\<rparr>"
  have "Suc n * P \<le> j * P" using lt by (rule mult_le_mono1)
  then have more: "n * P + P \<le> j * P" by simp
  with Suc.prems(3) have next_lt: "n * P + P < length xs" by simp
  have miss: "offsetOf cursor \<noteq> (Suc j - 1) * P"
    using Suc.prems(2) lt P by simp
  have rp: "requestPage (failingUpstream (Suc j) e (pagedUpstream xs)) mb P cursor u = (Inr pg, [], u)"
    using next_lt
    by (simp add: requestPage_failing_miss [OF miss] requestPage_paged Suc.prems(2) pg_def)
  have nx: "next_cursor pg \<noteq> None" by (simp add: pg_def)
  from next_lt have lenp: "length (page_items pg) = P" by (simp add: pg_def)
  from Suc.prems(5) have it: "\<not> maxItems \<le> length (acc @ page_items pg)"
    by (simp add: d lenp)
  from lt Suc.prems(4) have pages: "\<not> maxPages \<le> Suc n" by simp
  from d have d': "d = j - Suc n" by simp
  have off: "offsetOf (next_cursor pg) = Suc n * P" by (simp add: offsetOf_Some pg_def)
  have i5: "length (acc @ page_items pg) + (j - Suc n) * P < maxItems"
    using Suc.prems(5) by (simp add: d d' [symmetric] lenp)
  have "take (P + d * P) (drop (n * P) xs) =
          take P (drop (n * P) xs) @ take (d * P) (drop P (drop (n * P) xs))"
    by (rule take_add)
  then have cat: "(acc @ page_items pg) @ take ((j - Suc n) * P) (drop (Suc n * P) xs) =
             acc @ take ((j - n) * P) (drop (n * P) xs)"
    by (simp add: pg_def d d' [symmetric] add.commute)
  have tot: "length (acc @ page_items pg) + (j - Suc n) * P = length acc + (j - n) * P"
    by (simp add: lenp d d' [symmetric])
  have step: "fetchLoop (failingUpstream (Suc j) e (pagedUpstream xs)) mb P maxPages maxItems
        cursor acc n ps pr u =
      fetchLoop (failingUpstream (Suc j) e (pagedUpstream xs)) mb P maxPages maxItems
        (next_cursor pg) (acc @ page_items pg) (Suc n) ps (pr @ [length (acc @ page_items pg)]) u"
    using fetchLoop_continue [OF rp nx it pages, of ps pr] by simp
  show ?case
    unfolding step
    using Suc.hyps(1) [OF d' lt off Suc.prems(3) Suc.prems(4) i5, where ps = ps and
        pr = "pr @ [length (acc @ page_items pg)]", unfolded cat tot]
    by simp
qed

text \<open>
  C2. Against an upstream that holds the items \<open>xs\<close> and serves them in pages of size
  \<open>P > 0\<close>, with limits that do not trigger (\<open>maxItems\<close> at least the number of items,
  \<open>maxPages\<close> at least the number of pages), \<open>fetchAll\<close> returns exactly \<open>xs\<close>, in order,
  with \<open>stoppedReason = Exhausted\<close> and no error beside it.
\<close>

theorem fetchAll_exhausts_paged_upstream:
  assumes "0 < P" and "length xs \<le> maxItems" and "length xs \<le> maxPages * P"
  shows "items (result (fetchAll (pagedUpstream xs) maxBackoff P maxPages maxItems u)) = xs \<and>
         totalFetched (result (fetchAll (pagedUpstream xs) maxBackoff P maxPages maxItems u)) =
           length xs \<and>
         stoppedReason (result (fetchAll (pagedUpstream xs) maxBackoff P maxPages maxItems u)) =
           Exhausted \<and>
         surfaced (fetchAll (pagedUpstream xs) maxBackoff P maxPages maxItems u) = None"
  using fetchLoop_paged [OF assms(1), of "[]" xs None maxItems maxPages 0 maxBackoff "[]" "[]" u] assms(2,3)
  by (simp add: fetchAll_def offsetOf_None)

theorem fetchAll_exhausts_paged_upstream_witness:
  "(0::nat) < 2 \<and> length [10, 20, 30, 40, 50 :: nat] \<le> 5 \<and>
   length [10, 20, 30, 40, 50 :: nat] \<le> 3 * 2 \<and>
   items (result (fetchAll (pagedUpstream [10, 20, 30, 40, 50 :: nat]) 60 2 3 5 ())) =
     [10, 20, 30, 40, 50] \<and>
   stoppedReason (result (fetchAll (pagedUpstream [10, 20, 30, 40, 50 :: nat]) 60 2 3 5 ())) =
     Exhausted"
  using fetchAll_exhausts_paged_upstream [of 2 "[10, 20, 30, 40, 50 :: nat]" 5 3 60 "()"]
  by simp

text \<open>
  C5, as stated, fails when the item limit is reached first: against an upstream that
  never ends, with pages of one item, \<open>maxPages = 3\<close> and \<open>maxItems = 1\<close>, the run stops
  after one iteration with \<open>CallerLimitReached\<close>, since the item limit is checked before
  the page limit.
\<close>

theorem fetchAll_endless_item_limit_counterexample:
  "stoppedReason (result (fetchAll (endlessUpstream (\<lambda>i. i)) 60 1 3 1 ())) = CallerLimitReached \<and>
   stoppedReason (result (fetchAll (endlessUpstream (\<lambda>i. i)) 60 1 3 1 ())) \<noteq> SafetyLimitReached \<and>
   iterations (fetchAll (endlessUpstream (\<lambda>i. i)) 60 1 3 1 ()) = 1"
proof -
  have rp: "requestPage (endlessUpstream (\<lambda>i. i)) 60 1 None () =
      (Inr \<lparr>page_items = [0], next_cursor = Some 1\<rparr>, [], ())"
    by (simp add: requestPage_endless offsetOf_None)
  have "fetchAll (endlessUpstream (\<lambda>i. i)) 60 1 3 1 () =
      stop CallerLimitReached None [0] 1 [] [1] ()"
    unfolding fetchAll_def by (subst fetchLoop_caller_limit [OF rp]) simp_all
  then show ?thesis by (simp add: stop_def)
qed

text \<open>
  With \<open>maxPages = 0\<close> the run still makes its first request: the page limit is checked
  after a page has been gathered.
\<close>

lemma fetchAll_endless_zero_page_limit:
  "iterations (fetchAll (endlessUpstream (\<lambda>i. i)) 60 2 0 100 ()) = 1 \<and>
   items (result (fetchAll (endlessUpstream (\<lambda>i. i)) 60 2 0 100 ())) = [0, 1]"
proof -
  have rp: "requestPage (endlessUpstream (\<lambda>i. i)) 60 2 None () =
      (Inr \<lparr>page_items = [0, 1], next_cursor = Some 2\<rparr>, [], ())"
    by (simp add: requestPage_endless offsetOf_None upt_rec)
  have "fetchAll (endlessUpstream (\<lambda>i. i)) 60 2 0 100 () =
      stop SafetyLimitReached None [0, 1] 1 [] [2] ()"
    unfolding fetchAll_def by (subst fetchLoop_safety_limit [OF rp]) (simp_all add: numeral_2_eq_2)
  then show ?thesis by (simp add: stop_def)
qed

text \<open>
  C5, amended. Against an upstream that never ends and serves pages of size \<open>P > 0\<close>,
  with \<open>maxPages > 0\<close> and an item limit that does not trigger
  (\<open>maxPages * P < maxItems\<close>), \<open>fetchAll\<close> stops after exactly \<open>maxPages\<close> iterations with
  \<open>stoppedReason = SafetyLimitReached\<close>, and returns the items of the first \<open>maxPages\<close>
  pages in order, which are not empty.
\<close>

theorem fetchAll_endless_stops_at_page_limit:
  assumes "0 < P" and "0 < maxPages" and "maxPages * P < maxItems"
  shows "iterations (fetchAll (endlessUpstream f) maxBackoff P maxPages maxItems u) = maxPages \<and>
         stoppedReason (result (fetchAll (endlessUpstream f) maxBackoff P maxPages maxItems u)) =
           SafetyLimitReached \<and>
         items (result (fetchAll (endlessUpstream f) maxBackoff P maxPages maxItems u)) =
           map f [0 ..< maxPages * P] \<and>
         items (result (fetchAll (endlessUpstream f) maxBackoff P maxPages maxItems u)) \<noteq> [] \<and>
         totalFetched (result (fetchAll (endlessUpstream f) maxBackoff P maxPages maxItems u)) =
           maxPages * P \<and>
         surfaced (fetchAll (endlessUpstream f) maxBackoff P maxPages maxItems u) = None"
proof -
  from assms(1,2) have pos: "0 < maxPages * P" by simp
  from fetchLoop_endless [OF assms(1), of 0 maxPages "[]" maxItems f maxBackoff None "[]" "[]" u]
    assms(2,3)
  have main: "result (fetchAll (endlessUpstream f) maxBackoff P maxPages maxItems u) =
           \<lparr>items = map f [0 ..< maxPages * P], isComplete = True,
            totalFetched = maxPages * P, stoppedReason = SafetyLimitReached\<rparr> \<and>
         surfaced (fetchAll (endlessUpstream f) maxBackoff P maxPages maxItems u) = None \<and>
         iterations (fetchAll (endlessUpstream f) maxBackoff P maxPages maxItems u) = maxPages"
    by (simp add: fetchAll_def offsetOf_None)
  then have "items (result (fetchAll (endlessUpstream f) maxBackoff P maxPages maxItems u)) \<noteq> []"
    using pos by simp
  with main show ?thesis by simp
qed

theorem fetchAll_endless_stops_at_page_limit_witness:
  "(0::nat) < 2 \<and> (0::nat) < 3 \<and> (3::nat) * 2 < 100 \<and>
   iterations (fetchAll (endlessUpstream (\<lambda>i. 7 * i)) 60 2 3 100 ()) = 3 \<and>
   stoppedReason (result (fetchAll (endlessUpstream (\<lambda>i. 7 * i)) 60 2 3 100 ())) =
     SafetyLimitReached \<and>
   items (result (fetchAll (endlessUpstream (\<lambda>i. 7 * i)) 60 2 3 100 ())) =
     [0, 7, 14, 21, 28, 35]"
proof -
  have "map (\<lambda>i. 7 * i) [0 ..< 3 * 2] = [0, 7, 14, 21, 28, 35 :: nat]"
    by (simp add: upt_rec)
  with fetchAll_endless_stops_at_page_limit [of 2 3 100 "\<lambda>i. 7 * i" 60 "()"]
  show ?thesis by simp
qed

text \<open>
  C6, as stated, fails when a limit stops the run before page \<open>K\<close> is asked for: with
  \<open>K = 2\<close> and \<open>maxPages = 1\<close> the run stops after the first page with
  \<open>SafetyLimitReached\<close> and no error.
\<close>

theorem fetchAll_failing_page_limit_counterexample:
  "stoppedReason (result (fetchAll (failingUpstream 2 NetworkError (pagedUpstream [10, 20, 30 :: nat]))
       60 1 1 100 ())) = SafetyLimitReached \<and>
   stoppedReason (result (fetchAll (failingUpstream 2 NetworkError (pagedUpstream [10, 20, 30 :: nat]))
       60 1 1 100 ())) \<noteq> UpstreamError \<and>
   surfaced (fetchAll (failingUpstream 2 NetworkError (pagedUpstream [10, 20, 30 :: nat]))
       60 1 1 100 ()) = None"
proof -
  have rp: "requestPage (failingUpstream 2 NetworkError (pagedUpstream [10, 20, 30 :: nat])) 60 1 None () =
      (Inr \<lparr>page_items = [10], next_cursor = Some 1\<rparr>, [], ())"
    by (simp add: requestPage_def failingUpstream_def pagedUpstream_def offsetOf_None)
  have "fetchAll (failingUpstream 2 NetworkError (pagedUpstream [10, 20, 30 :: nat])) 60 1 1 100 () =
      stop SafetyLimitReached None [10] 1 [] [1] ()"
    unfolding fetchAll_def by (subst fetchLoop_safety_limit [OF rp]) simp_all
  then show ?thesis by (simp add: stop_def)
qed

text \<open>
  C6, amended. Against an upstream that serves pages of size \<open>P > 0\<close> and fails on every
  request for page \<open>K > 1\<close> (the upstream holds more than \<open>K - 1\<close> pages), with limits
  that do not stop the run before page \<open>K\<close> (\<open>K \<le> maxPages\<close> and
  \<open>(K - 1) * P < maxItems\<close>), \<open>fetchAll\<close> returns the items of pages \<open>1..K-1\<close> in
  order, with \<open>stoppedReason = UpstreamError\<close> and the upstream's error beside the result.
  The error may be of any class; after a rate-limit failure the retry fails as well.
\<close>

theorem fetchAll_keeps_pages_before_failure:
  assumes "1 < K" and "0 < P" and "(K - 1) * P < length xs"
    and "K \<le> maxPages" and "(K - 1) * P < maxItems"
  shows "items (result (fetchAll (failingUpstream K err (pagedUpstream xs)) maxBackoff P maxPages
                    maxItems u)) = take ((K - 1) * P) xs \<and>
         totalFetched (result (fetchAll (failingUpstream K err (pagedUpstream xs)) maxBackoff P maxPages
                    maxItems u)) = (K - 1) * P \<and>
         stoppedReason (result (fetchAll (failingUpstream K err (pagedUpstream xs)) maxBackoff P
                    maxPages maxItems u)) = UpstreamError \<and>
         surfaced (fetchAll (failingUpstream K err (pagedUpstream xs)) maxBackoff P maxPages maxItems u) =
           Some err \<and>
         iterations (fetchAll (failingUpstream K err (pagedUpstream xs)) maxBackoff P maxPages maxItems u) =
           K"
proof -
  from assms(1) obtain j where K: "K = Suc j" by (cases K) simp_all
  from assms(3,4,5) have a: "j * P < length xs" "j < maxPages" "length ([]::'a list) + (j - 0) * P < maxItems"
    by (simp_all add: K)
  have off: "offsetOf None = 0 * P" by (simp add: offsetOf_None)
  from fetchLoop_failing [OF assms(2) _ off a, of err maxBackoff "[]" "[]" u]
  show ?thesis by (simp add: fetchAll_def K)
qed

theorem fetchAll_keeps_pages_before_failure_witness:
  "(1::nat) < 3 \<and> (0::nat) < 2 \<and> (3 - 1) * 2 < length [10, 20, 30, 40, 50, 60 :: nat] \<and>
   (3::nat) \<le> 5 \<and> (3 - 1) * 2 < (100::nat) \<and>
   items (result (fetchAll (failingUpstream 3 (RateLimitError 30)
             (pagedUpstream [10, 20, 30, 40, 50, 60 :: nat])) 60 2 5 100 ())) = [10, 20, 30, 40] \<and>
   stoppedReason (result (fetchAll (failingUpstream 3 (RateLimitError 30)
             (pagedUpstream [10, 20, 30, 40, 50, 60 :: nat])) 60 2 5 100 ())) = UpstreamError \<and>
   surfaced (fetchAll (failingUpstream 3 (RateLimitError 30)
             (pagedUpstream [10, 20, 30, 40, 50, 60 :: nat])) 60 2 5 100 ()) =
     Some (RateLimitError 30)"
  using fetchAll_keeps_pages_before_failure
    [of 3 2 "[10, 20, 30, 40, 50, 60 :: nat]" 5 100 "RateLimitError 30" 60 "()"]
  by simp

section \<open>Properties of body normalization\<close>

lemma lineBreak_not_in_boundary: "lineBreak \<notin> set ''</p><p>''"
  by (simp add: lineBreak_def)

lemma breaksToBoundaries_no_break: "lineBreak \<notin> set (breaksToBoundaries s)"
  by (induction s) (simp_all add: lineBreak_def)

lemma breaksToBoundaries_id: "lineBreak \<notin> set s \<Longrightarrow> breaksToBoundaries s = s"
  by (induction s) auto

lemma isWrapped_wrap: "isWrapped (''<p>'' @ t @ ''</p>'')"
proof -
  have "suffix ''</p>'' ((''<p>'' @ t) @ ''</p>'')" by (rule suffixI) (rule refl)
  then show ?thesis by (simp add: isWrapped_def)
qed

lemma normalizeBody_no_break: "lineBreak \<notin> set (normalizeBody s)"
  using breaksToBoundaries_no_break [of s]
  by (simp add: normalizeBody_def Let_def lineBreak_def)

lemma normalizeBody_wrapped: "isWrapped (normalizeBody s)"
  using isWrapped_wrap [of "breaksToBoundaries s"]
  by (simp add: normalizeBody_def Let_def del: append.simps)

text \<open>
  C7. Body normalization is idempotent: normalizing a normalized body changes nothing, so
  converted text is not wrapped a second time.
\<close>

theorem normalizeBody_idempotent: "normalizeBody (normalizeBody s) = normalizeBody s"
proof -
  have "breaksToBoundaries (normalizeBody s) = normalizeBody s"
    using normalizeBody_no_break by (rule breaksToBoundaries_id)
  then show ?thesis
    using normalizeBody_wrapped [of s]
    by (subst normalizeBody_def) (simp add: Let_def)
qed

text \<open>The two-line body of the specification's scenario becomes two paragraph blocks.\<close>

lemma normalizeBody_hello_world:
  "normalizeBody (''Hello'' @ [lineBreak] @ ''World'') = ''<p>Hello</p><p>World</p>''"
  by (simp add: normalizeBody_def isWrapped_def lineBreak_def)

end
